theory Spec2Isabelle
  imports Main "HOL-Library.AList" "HOL-Library.Sublist"
begin

section \<open>gdrivetoolbox: a shallow embedding of the auth and deploy packages\<close>

text \<open>
  The repository holds four Go functions: \<open>auth.GetGoogleAccessToken\<close> and, in package
  \<open>deploy\<close>, \<open>DeployPDF\<close>, \<open>CheckRemoteVersionExists\<close> and \<open>UploadFileToDrive\<close>.
  Each is a straight line of HTTP calls with early returns. The embedding keeps that
  shape: every function is one definition whose branches follow the source's
  \<open>if\<close>/\<open>return\<close> order. What the source obtains from outside the repository (the
  network, the file system, the Go standard library's JSON, URL and path functions) is
  a field of the record \<open>env\<close>; the calls to \<open>http.DefaultClient.Do\<close> are logged, in
  order, in an explicit list that each function returns beside its Go results.
  The informational \<open>fmt.Print\<close> lines and the deferred \<open>Close\<close> calls have no effect
  on any result and are left out.
\<close>

subsection \<open>Errors\<close>

text \<open>
  A Go \<open>error\<close> value. \<open>ErrorsNew m\<close> is \<open>errors.New(m)\<close>; \<open>Errorf f args\<close> is
  \<open>fmt.Errorf(f, args...)\<close>, kept as the format string with its arguments, so that what
  an error carries can be read off the value (\<open>%w\<close> wraps an error, \<open>%d\<close> takes an
  integer, \<open>%s\<close> a string); \<open>LibError m\<close> is an error produced outside the repository
  (transport, JSON decoder, operating system). The Go \<open>nil\<close> error is \<open>None\<close> of
  \<open>goerror option\<close>.
\<close>

datatype goerror = LibError string | ErrorsNew string | Errorf string "fmtarg list"
  and fmtarg = ArgS string | ArgD int | ArgW goerror

text \<open>
  A call either returns its results or panics. Only \<open>DeployPDF\<close> can panic: it drops
  the error of \<open>http.NewRequest\<close> and then sets a header on the request, which is \<open>nil\<close>
  when the URL did not parse.
\<close>

datatype 'a outcome = Returns 'a | Panics

subsection \<open>Requests, responses and the log of calls\<close>

text \<open>
  The body handed to \<open>http.NewRequest\<close>: \<open>nil\<close>, a byte buffer, or the buffer a
  \<open>multipart.Writer\<close> with the given boundary wrote its parts to (each part: its MIME
  header and its bytes).
\<close>

datatype payload = NoBody | Bytes string | Multipart string "((string \<times> string) list \<times> string) list"

record request =
  Method :: string
  URL :: string
  Header :: "(string \<times> string) list"
  Payload :: payload

text \<open>
  A response as the functions read it: the status code and the bytes \<open>io.ReadAll\<close>
  (or the JSON decoder) got from the body.
\<close>

record response =
  StatusCode :: int
  Body :: string

text \<open>The place in the source where \<open>http.DefaultClient.Do\<close> is called.\<close>

datatype callsite = Search | Rename | MoveArchive | Delete | Upload | SetSharing | MoveFinal | TokenPost

type_synonym log = "(callsite \<times> request) list"

subsection \<open>Decoded JSON and file information\<close>

text \<open>
  The anonymous struct of one entry of \<open>files\<close> in the search response, and
  \<open>auth.GoogleTokenResponse\<close>. Go's decoder leaves a field whose key is absent at its
  zero value, the empty string.
\<close>

record driveFile =
  ID :: string
  Name :: string
  Description :: string

record GoogleTokenResponse =
  AccessToken :: string
  ExpiresIn :: int
  TokenType :: string

record FileInfo =
  IsDir :: bool

text \<open>The values passed to \<open>json.Marshal\<close>: maps of strings and string slices.\<close>

datatype json = JString string | JArray "json list" | JObject "(string \<times> json) list"

subsection \<open>The environment\<close>

text \<open>
  Everything the functions call that is not code of the repository.
  \<^item> \<open>Do hist rq\<close>: \<open>http.DefaultClient.Do\<close> on \<open>rq\<close> after the requests \<open>hist\<close> were
    sent: a transport error or a response. The server may answer from its whole history.
  \<^item> \<open>url_Parse u\<close>: the error of \<open>url.Parse\<close>, which is the only way
    \<open>http.NewRequest\<close> fails for the constant methods the source uses.
  \<^item> \<open>os_Stat\<close>; \<open>os_Open p\<close>: the open error, or the bytes \<open>io.Copy\<close> reads from the file
    with the read error that ended the copy, if any.
  \<^item> \<open>filepath_Join\<close>, \<open>filepath_Base\<close>, \<open>filepath_Ext\<close>, \<open>mime_TypeByExtension\<close>,
    \<open>url_QueryEscape\<close>, \<open>json_Marshal\<close>: the library functions of these names.
  \<^item> \<open>unmarshal_files\<close>: \<open>json.Unmarshal\<close> into the struct with the one field \<open>files\<close>;
    \<open>unmarshal_id\<close>: \<open>json.Unmarshal\<close> into the struct with the one field \<open>id\<close>;
    \<open>decode_token\<close>: \<open>json.NewDecoder(body).Decode\<close> into \<open>GoogleTokenResponse\<close>.
  \<^item> \<open>boundary\<close>: the random boundary \<open>multipart.NewWriter\<close> chose.
\<close>

record env =
  Do :: "request list \<Rightarrow> request \<Rightarrow> goerror + response"
  url_Parse :: "string \<Rightarrow> goerror option"
  os_Stat :: "string \<Rightarrow> goerror + FileInfo"
  os_Open :: "string \<Rightarrow> goerror + string \<times> goerror option"
  filepath_Join :: "string \<Rightarrow> string \<Rightarrow> string"
  filepath_Base :: "string \<Rightarrow> string"
  filepath_Ext :: "string \<Rightarrow> string"
  mime_TypeByExtension :: "string \<Rightarrow> string"
  url_QueryEscape :: "string \<Rightarrow> string"
  json_Marshal :: "json \<Rightarrow> goerror + string"
  unmarshal_files :: "string \<Rightarrow> goerror + driveFile list"
  unmarshal_id :: "string \<Rightarrow> goerror + string"
  decode_token :: "string \<Rightarrow> goerror + GoogleTokenResponse"
  boundary :: string

subsection \<open>Library calls written out\<close>

text \<open>
  \<open>fmt.Sprintf\<close> for the formats of the source, whose only verb is \<open>%s\<close> and whose
  arguments are strings, as many as the format has verbs.
\<close>

fun Sprintf :: "string \<Rightarrow> string list \<Rightarrow> string" where
  "Sprintf [] args = []"
| "Sprintf [c] args = [c]"
| "Sprintf (c # d # fmt) args =
     (if c = CHR ''%'' \<and> d = CHR ''s''
      then (case args of
              [] \<Rightarrow> ''%!s(MISSING)'' @ Sprintf fmt []
            | a # rest \<Rightarrow> a @ Sprintf fmt rest)
      else c # Sprintf (d # fmt) args)"

declare Sprintf.simps [simp del]

text \<open>\<open>http.NewRequest(method, url, body)\<close>: a request with no header yet.\<close>

definition http_NewRequest :: "env \<Rightarrow> string \<Rightarrow> string \<Rightarrow> payload \<Rightarrow> goerror + request" where
  "http_NewRequest e m u b =
     (case url_Parse e u of
        Some err \<Rightarrow> Inl err
      | None \<Rightarrow> Inr \<lparr>Method = m, URL = u, Header = [], Payload = b\<rparr>)"

text \<open>\<open>req.Header.Set(key, value)\<close> and \<open>req.Header.Get(key)\<close>.\<close>

definition Header_Set :: "string \<Rightarrow> string \<Rightarrow> request \<Rightarrow> request" where
  "Header_Set k v rq = rq\<lparr>Header := AList.update k v (Header rq)\<rparr>"

definition Header_Get :: "request \<Rightarrow> string \<Rightarrow> string" where
  "Header_Get rq k = (case map_of (Header rq) k of None \<Rightarrow> [] | Some v \<Rightarrow> v)"

text \<open>
  \<open>http.DefaultClient.Do(req)\<close> after the calls of the log \<open>lg\<close>: the environment
  answers from the requests sent before. \<open>sent site rq lg\<close> is the log after this call
  was made at call site \<open>site\<close>.
\<close>

definition http_Do :: "env \<Rightarrow> log \<Rightarrow> request \<Rightarrow> goerror + response" where
  "http_Do e lg rq = Do e (map snd lg) rq"

definition sent :: "callsite \<Rightarrow> request \<Rightarrow> log \<Rightarrow> log" where
  "sent site rq lg = lg @ [(site, rq)]"

text \<open>\<open>bytes.Contains(b, sub)\<close>: \<open>sub\<close> occurs in \<open>b\<close> as a contiguous run of bytes.\<close>

fun bytes_Contains :: "string \<Rightarrow> string \<Rightarrow> bool" where
  "bytes_Contains [] sub = (sub = [])"
| "bytes_Contains (c # b) sub = (prefix sub (c # b) \<or> bytes_Contains b sub)"

subsection \<open>The literals of the source\<close>

text \<open>
  The URLs, bodies, header lines and error values of the source, one definition for
  each, named after the variable or the call that holds it. Every \<open>fmt.Sprintf\<close> and
  \<open>fmt.Errorf\<close> keeps its format string and its arguments.
\<close>

definition queryURL :: "string \<Rightarrow> string \<Rightarrow> string" where
  "queryURL folderID encodedName =
     Sprintf ''https://www.googleapis.com/drive/v3/files?q='%s'+in+parents+and+name='%s'+and+trashed=false&fields=files(id,name,description)''
       [folderID, encodedName]"

definition renameURL :: "string \<Rightarrow> string" where
  "renameURL existingFileID = Sprintf ''https://www.googleapis.com/drive/v3/files/%s'' [existingFileID]"

definition renameBody :: "string \<Rightarrow> string" where
  \<open>renameBody renamedFile = Sprintf ''{"name": "%s"}'' [renamedFile]\<close>

definition moveURL :: "string \<Rightarrow> string \<Rightarrow> string \<Rightarrow> string" where
  "moveURL existingFileID oldFolderID folderID =
     Sprintf ''https://www.googleapis.com/drive/v3/files/%s?addParents=%s&removeParents=%s&fields=id,parents''
       [existingFileID, oldFolderID, folderID]"

definition delURL :: "string \<Rightarrow> string" where
  "delURL existingFileID = Sprintf ''https://www.googleapis.com/drive/v3/files/%s'' [existingFileID]"

definition uploadURL :: string where
  "uploadURL = ''https://www.googleapis.com/upload/drive/v3/files?uploadType=multipart''"

definition permURL :: "string \<Rightarrow> string" where
  "permURL newFileID = Sprintf ''https://www.googleapis.com/drive/v3/files/%s'' [newFileID]"

definition permBody :: string where
  \<open>permBody = ''{"copyRequiresWriterPermission": true, "writersCanShare": false}''\<close>

definition moveNewURL :: "string \<Rightarrow> string \<Rightarrow> string \<Rightarrow> string" where
  "moveNewURL newFileID folderID tempFolderID =
     Sprintf ''https://www.googleapis.com/drive/v3/files/%s?addParents=%s&removeParents=%s&fields=id,parents''
       [newFileID, folderID, tempFolderID]"

definition tokenURL :: string where
  "tokenURL = ''https://oauth2.googleapis.com/token''"

text \<open>\<open>req.Header.Set("Authorization", "Bearer "+accessToken)\<close> and the two content types.\<close>

definition set_Authorization :: "string \<Rightarrow> request \<Rightarrow> request" where
  "set_Authorization accessToken rq = Header_Set ''Authorization'' (''Bearer '' @ accessToken) rq"

definition set_ContentType_json :: "request \<Rightarrow> request" where
  "set_ContentType_json rq = Header_Set ''Content-Type'' ''application/json'' rq"

definition set_ContentType :: "string \<Rightarrow> request \<Rightarrow> request" where
  "set_ContentType v rq = Header_Set ''Content-Type'' v rq"

text \<open>The error values of \<open>DeployPDF\<close>, in the order of the source.\<close>

definition err_missing_required :: goerror where
  "err_missing_required = ErrorsNew ''missing required variable(s): fileName, accessToken, tempFolderID, folderID''"

definition err_pdf_not_found :: "string \<Rightarrow> goerror" where
  "err_pdf_not_found pdfPath = Errorf ''PDF '%s' not found'' [ArgS pdfPath]"

definition err_version_missing :: goerror where
  "err_version_missing = ErrorsNew ''version-safe.txt missing or empty, or VERSION_SUFFIX not set''"

definition err_rename :: "goerror \<Rightarrow> goerror" where
  "err_rename err = Errorf ''failed to rename existing file: %w'' [ArgW err]"

definition err_move_archive :: "goerror \<Rightarrow> goerror" where
  "err_move_archive err = Errorf ''failed to move old file to archive: %w'' [ArgW err]"

definition err_delete :: "goerror \<Rightarrow> goerror" where
  "err_delete err = Errorf ''failed to delete existing file: %w'' [ArgW err]"

definition err_delete_status :: "int \<Rightarrow> string \<Rightarrow> goerror" where
  "err_delete_status code body = Errorf ''failed to delete existing file: status %d: %s'' [ArgD code, ArgS body]"

definition err_upload :: "goerror \<Rightarrow> goerror" where
  "err_upload err = Errorf ''upload failed: %w'' [ArgW err]"

definition err_upload_body :: "string \<Rightarrow> goerror" where
  "err_upload_body uploadRespBody = Errorf ''upload failed: %s'' [ArgS uploadRespBody]"

definition err_move_final :: "goerror \<Rightarrow> goerror" where
  "err_move_final err = Errorf ''move to final folder failed: %w'' [ArgW err]"

definition err_move_body :: "string \<Rightarrow> goerror" where
  "err_move_body moveRespBody = Errorf ''upload succeeded, but move failed: %s'' [ArgS moveRespBody]"

text \<open>The error values of \<open>CheckRemoteVersionExists\<close>.\<close>

definition err_no_access_token_var :: goerror where
  "err_no_access_token_var = Errorf ''ACCESS_TOKEN is not set'' []"

definition err_missing_check :: goerror where
  "err_missing_check = Errorf ''missing required variable(s): FileName, FolderID, VersionSafe'' []"

text \<open>The error values of \<open>UploadFileToDrive\<close>.\<close>

definition err_accessToken_required :: goerror where
  "err_accessToken_required = ErrorsNew ''accessToken is required''"

definition err_folderID_required :: goerror where
  "err_folderID_required = ErrorsNew ''folderID is required''"

definition err_filePath_required :: goerror where
  "err_filePath_required = ErrorsNew ''filePath is required''"

definition err_stat :: "goerror \<Rightarrow> goerror" where
  "err_stat err = Errorf ''stat file: %w'' [ArgW err]"

definition err_is_directory :: goerror where
  "err_is_directory = Errorf ''filePath is a directory'' []"

definition err_marshal :: "goerror \<Rightarrow> goerror" where
  "err_marshal err = Errorf ''marshal metadata: %w'' [ArgW err]"

definition err_open :: "goerror \<Rightarrow> goerror" where
  "err_open err = Errorf ''open file: %w'' [ArgW err]"

definition err_copy :: "goerror \<Rightarrow> goerror" where
  "err_copy err = Errorf ''copy file part: %w'' [ArgW err]"

definition err_new_request :: "goerror \<Rightarrow> goerror" where
  "err_new_request err = Errorf ''new request: %w'' [ArgW err]"

definition err_upload_request :: "goerror \<Rightarrow> goerror" where
  "err_upload_request err = Errorf ''upload request failed: %w'' [ArgW err]"

definition err_upload_status :: "int \<Rightarrow> string \<Rightarrow> goerror" where
  "err_upload_status code body = Errorf ''upload failed: status %d: %s'' [ArgD code, ArgS body]"

definition err_decode_upload :: "goerror \<Rightarrow> goerror" where
  "err_decode_upload err = Errorf ''decode upload response: %w'' [ArgW err]"

definition err_empty_id :: "string \<Rightarrow> goerror" where
  "err_empty_id body = Errorf ''upload succeeded but returned empty id: %s'' [ArgS body]"

text \<open>The error values of \<open>GetGoogleAccessToken\<close>.\<close>

definition err_decode_token :: "goerror \<Rightarrow> goerror" where
  "err_decode_token err = Errorf ''failed to decode token response: %w'' [ArgW err]"

definition err_no_access_token :: goerror where
  "err_no_access_token = ErrorsNew ''no access_token in response''"

text \<open>
  The metadata maps and the multipart bodies. \<open>DeployPDF\<close> drops the error of
  \<open>json.Marshal\<close>: a failed marshal leaves the metadata part empty.
\<close>

definition deploy_metadata :: "string \<Rightarrow> string \<Rightarrow> string \<Rightarrow> json" where
  "deploy_metadata pdfFile tempFolderID versionSafe =
     JObject [(''name'', JString pdfFile),
              (''parents'', JArray [JString tempFolderID]),
              (''description'', JString versionSafe)]"

definition deploy_buf :: "env \<Rightarrow> json \<Rightarrow> string \<Rightarrow> payload" where
  "deploy_buf e metadata pdfBytes =
     (let metadataJSON = (case json_Marshal e metadata of Inl err \<Rightarrow> [] | Inr b \<Rightarrow> b);
          metaPart = ([(''Content-Type'', ''application/json; charset=UTF-8'')], metadataJSON);
          pdfPart = ([(''Content-Type'', ''application/pdf'')], pdfBytes)
      in Multipart (boundary e) [metaPart, pdfPart])"

definition upload_meta :: "string \<Rightarrow> string \<Rightarrow> json" where
  "upload_meta fileName folderID =
     JObject [(''name'', JString fileName), (''parents'', JArray [JString folderID])]"

definition upload_buf :: "env \<Rightarrow> string \<Rightarrow> string \<Rightarrow> string \<Rightarrow> payload" where
  \<open>upload_buf e metaJSON fileName fileBytes =
     (let metaPart = ([(''Content-Type'', ''application/json; charset=UTF-8'')], metaJSON);
          ctype0 = mime_TypeByExtension e (filepath_Ext e fileName);
          ctype = (if ctype0 = [] then ''application/octet-stream'' else ctype0);
          fileHeader = [(''Content-Type'', ctype),
                        (''Content-Disposition'', Sprintf ''form-data; name="file"; filename="%s"'' [fileName])];
          filePart = (fileHeader, fileBytes)
      in Multipart (boundary e) [metaPart, filePart])\<close>

definition token_data :: "string \<Rightarrow> string \<Rightarrow> string \<Rightarrow> json" where
  "token_data clientID clientSecret refreshToken =
     JObject [(''client_id'', JString clientID),
              (''client_secret'', JString clientSecret),
              (''refresh_token'', JString refreshToken),
              (''grant_type'', JString ''refresh_token'')]"

text \<open>
  \<open>strings.ContainsAny\<close> and \<open>(*multipart.Writer).FormDataContentType\<close>, which quotes
  the boundary when it holds one of the listed characters (the backslash is byte 0x5C).
\<close>

definition strings_ContainsAny :: "string \<Rightarrow> string \<Rightarrow> bool" where
  "strings_ContainsAny s chars = list_ex (\<lambda>c. c \<in> set chars) s"

definition FormDataContentType :: "string \<Rightarrow> string" where
  \<open>FormDataContentType b =
     ''multipart/form-data; boundary='' @
       (if strings_ContainsAny b (''()<>@,;:'' @ [CHR 0x5C] @ ''"/[]?= '') then ''"'' @ b @ ''"'' else b)\<close>

subsection \<open>deploy.CheckRemoteVersionExists\<close>

text \<open>Go returns \<open>(bool, error)\<close>; the model returns the log of calls beside the pair.\<close>

definition CheckRemoteVersionExists ::
  "env \<Rightarrow> string \<Rightarrow> string \<Rightarrow> string \<Rightarrow> string \<Rightarrow> log \<times> bool \<times> goerror option" where
  "CheckRemoteVersionExists e accessToken fileName folderID versionSafe =
     (if accessToken = [] then ([], False, Some err_no_access_token_var)
      else if fileName = [] \<or> folderID = [] \<or> versionSafe = []
      then ([], False, Some err_missing_check)
      else
        let pdfFile = fileName @ ''.pdf'';
            encodedName = url_QueryEscape e pdfFile;
            url = queryURL folderID encodedName
        in case http_NewRequest e ''GET'' url NoBody of
             Inl err \<Rightarrow> ([], False, Some err)
           | Inr req0 \<Rightarrow>
               let req = set_Authorization accessToken req0;
                   lg = sent Search req []
               in (case http_Do e [] req of
                     Inl err \<Rightarrow> (lg, False, Some err)
                   | Inr resp \<Rightarrow>
                       (case unmarshal_files e (Body resp) of
                          Inl err \<Rightarrow> (lg, False, Some err)
                        | Inr files \<Rightarrow>
                            if length files > 0 \<and> Description (files ! 0) = versionSafe
                            then (lg, True, None)
                            else (lg, False, None))))"

subsection \<open>deploy.DeployPDF\<close>

text \<open>
  Lines 167 to 189: the sharing restrictions, whose call is made and whose result is
  dropped, and the move to the final folder.
\<close>

definition deploy_finish ::
  "env \<Rightarrow> string \<Rightarrow> string \<Rightarrow> string \<Rightarrow> string \<Rightarrow> log \<Rightarrow> log \<times> goerror option outcome" where
  \<open>deploy_finish e accessToken newFileID tempFolderID folderID lg =
     (case http_NewRequest e ''PATCH'' (permURL newFileID) (Bytes permBody) of
        Inl err \<Rightarrow> (lg, Panics)
      | Inr req0 \<Rightarrow>
          (let req = set_ContentType_json (set_Authorization accessToken req0);
               lg1 = sent SetSharing req lg;
               ignored = http_Do e lg req
           in case http_NewRequest e ''PATCH'' (moveNewURL newFileID folderID tempFolderID) NoBody of
                Inl err \<Rightarrow> (lg1, Panics)
              | Inr req0' \<Rightarrow>
                  (let req' = set_Authorization accessToken req0';
                       lg2 = sent MoveFinal req' lg1
                   in case http_Do e lg1 req' of
                        Inl err \<Rightarrow> (lg2, Returns (Some (err_move_final err)))
                      | Inr resp \<Rightarrow>
                          (let moveRespBody = Body resp
                           in if \<not> bytes_Contains moveRespBody ''"id"''
                              then (lg2, Returns (Some (err_move_body moveRespBody)))
                              else (lg2, Returns None)))))\<close>

text \<open>
  Lines 118 to 165: the upload of the new file, then the rest of the function. The
  error of \<open>io.Copy\<close> is dropped by the source: a failed copy leaves the bytes read so
  far in the part.
\<close>

definition deploy_upload ::
  "env \<Rightarrow> string \<Rightarrow> string \<Rightarrow> string \<Rightarrow> string \<Rightarrow> string \<Rightarrow> string \<Rightarrow> log \<Rightarrow> log \<times> goerror option outcome" where
  "deploy_upload e accessToken pdfFile pdfPath versionSafe tempFolderID folderID lg =
     (let metadata = deploy_metadata pdfFile tempFolderID versionSafe
      in case os_Open e pdfPath of
           Inl err \<Rightarrow> (lg, Returns (Some err))
         | Inr osPDFFile \<Rightarrow>
             (let buf = deploy_buf e metadata (fst osPDFFile)
              in case http_NewRequest e ''POST'' uploadURL buf of
                   Inl err \<Rightarrow> (lg, Panics)
                 | Inr req0 \<Rightarrow>
                     (let req = set_ContentType (FormDataContentType (boundary e))
                                  (set_Authorization accessToken req0);
                          lg1 = sent Upload req lg
                      in case http_Do e lg req of
                           Inl err \<Rightarrow> (lg1, Returns (Some (err_upload err)))
                         | Inr resp \<Rightarrow>
                             (let uploadRespBody = Body resp
                              in case unmarshal_id e uploadRespBody of
                                   Inl err \<Rightarrow> (lg1, Returns (Some (err_upload_body uploadRespBody)))
                                 | Inr newFileID \<Rightarrow>
                                     if newFileID = []
                                     then (lg1, Returns (Some (err_upload_body uploadRespBody)))
                                     else deploy_finish e accessToken newFileID tempFolderID folderID lg1))))"

text \<open>
  Lines 71 to 75: the name the old file is given in the archive.
\<close>

definition renamedFile :: "string \<Rightarrow> string \<Rightarrow> string" where
  "renamedFile fileName existingFileDesc =
     (let renamedFile0 = fileName @ ''-'' @ existingFileDesc;
          renamedFile1 = (if existingFileDesc = [] \<or> existingFileDesc = ''null''
                          then fileName @ ''-unknown'' else renamedFile0)
      in renamedFile1 @ ''.pdf'')"

text \<open>
  Lines 69 to 116: what is done with the file the search found. The result is the log
  and, when the function returns or panics here, its outcome; \<open>None\<close> when it goes on to
  the upload.
\<close>

definition deploy_old_version ::
  "env \<Rightarrow> string \<Rightarrow> string \<Rightarrow> string \<Rightarrow> string \<Rightarrow> string \<Rightarrow> string \<Rightarrow> log
     \<Rightarrow> log \<times> goerror option outcome option" where
  "deploy_old_version e accessToken fileName folderID oldFolderID existingFileID existingFileDesc lg =
     (if existingFileID \<noteq> [] \<and> oldFolderID \<noteq> []
      then
        (case http_NewRequest e ''PATCH'' (renameURL existingFileID)
                (Bytes (renameBody (renamedFile fileName existingFileDesc))) of
           Inl err \<Rightarrow> (lg, Some Panics)
         | Inr req0 \<Rightarrow>
             (let req = set_ContentType_json (set_Authorization accessToken req0);
                  lg1 = sent Rename req lg
              in case http_Do e lg req of
                   Inl err \<Rightarrow> (lg1, Some (Returns (Some (err_rename err))))
                 | Inr resp \<Rightarrow>
                     (case http_NewRequest e ''PATCH'' (moveURL existingFileID oldFolderID folderID) NoBody of
                        Inl err \<Rightarrow> (lg1, Some Panics)
                      | Inr req0' \<Rightarrow>
                          (let req' = set_Authorization accessToken req0';
                               lg2 = sent MoveArchive req' lg1
                           in case http_Do e lg1 req' of
                                Inl err \<Rightarrow> (lg2, Some (Returns (Some (err_move_archive err))))
                              | Inr resp' \<Rightarrow> (lg2, None)))))
      else if existingFileID \<noteq> []
      then
        (case http_NewRequest e ''DELETE'' (delURL existingFileID) NoBody of
           Inl err \<Rightarrow> (lg, Some Panics)
         | Inr req0 \<Rightarrow>
             (let req = set_Authorization accessToken req0;
                  lg1 = sent Delete req lg
              in case http_Do e lg req of
                   Inl err \<Rightarrow> (lg1, Some (Returns (Some (err_delete err))))
                 | Inr resp \<Rightarrow>
                     if StatusCode resp \<noteq> 204 \<and> StatusCode resp \<noteq> 200
                     then (lg1, Some (Returns (Some (err_delete_status (StatusCode resp) (Body resp)))))
                     else (lg1, None)))
      else (lg, None))"

text \<open>
  Lines 58 to 62: the id and the description of the first file found, both empty when
  the search found none.
\<close>

definition existingFileID_of :: "driveFile list \<Rightarrow> string" where
  "existingFileID_of files = (if length files > 0 then ID (files ! 0) else [])"

definition existingFileDesc_of :: "driveFile list \<Rightarrow> string" where
  "existingFileDesc_of files = (if length files > 0 then Description (files ! 0) else [])"

text \<open>
  The whole function. Go returns \<open>error\<close>; the model returns the log of calls and the
  outcome: \<open>Returns None\<close> is \<open>return nil\<close>.
\<close>

definition DeployPDF ::
  "env \<Rightarrow> string \<Rightarrow> string \<Rightarrow> string \<Rightarrow> string \<Rightarrow> string \<Rightarrow> string \<Rightarrow> string
     \<Rightarrow> log \<times> goerror option outcome" where
  "DeployPDF e accessToken fileName versionSafe tempFolderID folderID oldFolderID sopDir =
     (if fileName = [] \<or> accessToken = [] \<or> tempFolderID = [] \<or> folderID = []
      then ([], Returns (Some err_missing_required))
      else
        (let pdfFile = fileName @ ''.pdf'';
             pdfPath = filepath_Join e sopDir pdfFile
         in case os_Stat e pdfPath of
              Inl err \<Rightarrow> ([], Returns (Some (err_pdf_not_found pdfPath)))
            | Inr info \<Rightarrow>
                if versionSafe = []
                then ([], Returns (Some err_version_missing))
                else
                  (let encodedName = url_QueryEscape e pdfFile;
                       url = queryURL folderID encodedName
                   in case http_NewRequest e ''GET'' url NoBody of
                        Inl err \<Rightarrow> ([], Panics)
                      | Inr req0 \<Rightarrow>
                          (let req = set_Authorization accessToken req0;
                               lg = sent Search req []
                           in case http_Do e [] req of
                                Inl err \<Rightarrow> (lg, Returns (Some err))
                              | Inr resp \<Rightarrow>
                                  (case unmarshal_files e (Body resp) of
                                     Inl err \<Rightarrow> (lg, Returns (Some err))
                                   | Inr files \<Rightarrow>
                                       (let existingFileID = existingFileID_of files;
                                            existingFileDesc = existingFileDesc_of files
                                        in if existingFileID \<noteq> [] \<and> existingFileDesc = versionSafe
                                           then (lg, Returns None)
                                           else
                                             (let old = deploy_old_version e accessToken fileName folderID oldFolderID
                                                          existingFileID existingFileDesc lg
                                              in case snd old of
                                                   Some out \<Rightarrow> (fst old, out)
                                                 | None \<Rightarrow>
                                                     deploy_upload e accessToken pdfFile pdfPath versionSafe
                                                       tempFolderID folderID (fst old))))))))"

subsection \<open>deploy.UploadFileToDrive\<close>

text \<open>
  Go returns \<open>(string, error)\<close>. The source also checks the errors of
  \<open>writer.CreatePart\<close>, \<open>metaPart.Write\<close> and \<open>writer.Close\<close>; the writer writes to a
  \<open>bytes.Buffer\<close>, whose \<open>Write\<close> always returns a \<open>nil\<close> error, so these branches are
  never taken and the model has none for them.
\<close>

definition UploadFileToDrive ::
  "env \<Rightarrow> string \<Rightarrow> string \<Rightarrow> string \<Rightarrow> log \<times> string \<times> goerror option" where
  "UploadFileToDrive e accessToken folderID filePath =
     (if accessToken = [] then ([], [], Some err_accessToken_required)
      else if folderID = [] then ([], [], Some err_folderID_required)
      else if filePath = [] then ([], [], Some err_filePath_required)
      else
        (case os_Stat e filePath of
           Inl err \<Rightarrow> ([], [], Some (err_stat err))
         | Inr finfo \<Rightarrow>
             if IsDir finfo then ([], [], Some err_is_directory)
             else
               (let fileName = filepath_Base e filePath;
                    meta = upload_meta fileName folderID
                in case json_Marshal e meta of
                     Inl err \<Rightarrow> ([], [], Some (err_marshal err))
                   | Inr metaJSON \<Rightarrow>
                       (case os_Open e filePath of
                          Inl err \<Rightarrow> ([], [], Some (err_open err))
                        | Inr f \<Rightarrow>
                            (case snd f of
                               Some err \<Rightarrow> ([], [], Some (err_copy err))
                             | None \<Rightarrow>
                                 (let buf = upload_buf e metaJSON fileName (fst f)
                                  in case http_NewRequest e ''POST'' uploadURL buf of
                                       Inl err \<Rightarrow> ([], [], Some (err_new_request err))
                                     | Inr req0 \<Rightarrow>
                                         (let req = set_ContentType (''multipart/related; boundary='' @ boundary e)
                                                      (set_Authorization accessToken req0);
                                              lg = sent Upload req []
                                          in case http_Do e [] req of
                                               Inl err \<Rightarrow> (lg, [], Some (err_upload_request err))
                                             | Inr resp \<Rightarrow>
                                                 (let body = Body resp
                                                  in if StatusCode resp < 200 \<or> StatusCode resp \<ge> 300
                                                     then (lg, [], Some (err_upload_status (StatusCode resp) body))
                                                     else
                                                       (case unmarshal_id e body of
                                                          Inl err \<Rightarrow> (lg, [], Some (err_decode_upload err))
                                                        | Inr resultID \<Rightarrow>
                                                            if resultID = []
                                                            then (lg, [], Some (err_empty_id body))
                                                            else (lg, resultID, None))))))))))"

subsection \<open>auth.GetGoogleAccessToken\<close>

text \<open>Go returns \<open>(string, error)\<close>. The error of \<open>json.Marshal\<close> is dropped by the source.\<close>

definition GetGoogleAccessToken ::
  "env \<Rightarrow> string \<Rightarrow> string \<Rightarrow> string \<Rightarrow> log \<times> string \<times> goerror option" where
  "GetGoogleAccessToken e clientID clientSecret refreshToken =
     (let data = token_data clientID clientSecret refreshToken;
          body = (case json_Marshal e data of Inl err \<Rightarrow> [] | Inr b \<Rightarrow> b)
      in case http_NewRequest e ''POST'' tokenURL (Bytes body) of
           Inl err \<Rightarrow> ([], [], Some err)
         | Inr req0 \<Rightarrow>
             (let req = set_ContentType_json req0;
                  lg = sent TokenPost req []
              in case http_Do e [] req of
                   Inl err \<Rightarrow> (lg, [], Some err)
                 | Inr resp \<Rightarrow>
                     (case decode_token e (Body resp) of
                        Inl err \<Rightarrow> (lg, [], Some (err_decode_token err))
                      | Inr tokenResp \<Rightarrow>
                          if AccessToken tokenResp = []
                          then (lg, [], Some err_no_access_token)
                          else (lg, AccessToken tokenResp, None))))"

section \<open>Concrete environments\<close>

text \<open>
  Environments in the manner of the repository's tests, where an \<open>httptest\<close> server
  answers by the request's method and the PDF lies in a temporary directory. The
  decoders are tables over the bodies these servers send.
\<close>

definition test_unmarshal_files :: "string \<Rightarrow> goerror + driveFile list" where
  \<open>test_unmarshal_files b =
     (if b = ''{"files": []}'' then Inr []
      else if b = ''{"files":[{"id":"exid","name":"exists.pdf","description":"v1"}]}''
      then Inr [\<lparr>ID = ''exid'', Name = ''exists.pdf'', Description = ''v1''\<rparr>]
      else if b = ''{"files":[{"id":"oldid","name":"mydoc.pdf","description":"oldver"}]}''
      then Inr [\<lparr>ID = ''oldid'', Name = ''mydoc.pdf'', Description = ''oldver''\<rparr>]
      else if b = ''{"files":[{"id":"","name":"mydoc.pdf","description":"v1"}]}''
      then Inr [\<lparr>ID = [], Name = ''mydoc.pdf'', Description = ''v1''\<rparr>]
      else if b = ''{"files":[{"id":"oldid","name":"mydoc.pdf","description":"null"}]}''
      then Inr [\<lparr>ID = ''oldid'', Name = ''mydoc.pdf'', Description = ''null''\<rparr>]
      else Inl (LibError ''invalid character''))\<close>

definition test_unmarshal_id :: "string \<Rightarrow> goerror + string" where
  \<open>test_unmarshal_id b =
     (if b = ''{"id":"new-file-id"}'' then Inr ''new-file-id''
      else if b = ''{"id":"new-file-id","parents":["final"]}'' then Inr ''new-file-id''
      else if b = ''{"error":"boom"}'' then Inr []
      else Inl (LibError ''invalid character''))\<close>

definition test_decode_token :: "string \<Rightarrow> goerror + GoogleTokenResponse" where
  \<open>test_decode_token b =
     (if b = ''{"access_token":"tok-123","expires_in":3600,"token_type":"Bearer"}''
      then Inr \<lparr>AccessToken = ''tok-123'', ExpiresIn = 3600, TokenType = ''Bearer''\<rparr>
      else if b = ''{"expires_in":3600}''
      then Inr \<lparr>AccessToken = [], ExpiresIn = 3600, TokenType = []\<rparr>
      else if b = ''{"access_token":"tok","expires_in":"3600"}''
      then Inl (LibError ''json: cannot unmarshal string into Go struct field GoogleTokenResponse.expires_in of type int'')
      else Inl (LibError ''invalid character''))\<close>

definition test_env :: "(request list \<Rightarrow> request \<Rightarrow> goerror + response) \<Rightarrow> env" where
  "test_env srv =
     \<lparr>Do = srv,
      url_Parse = (\<lambda>u. None),
      os_Stat = (\<lambda>p. if p = ''/tmp/td/mydoc.pdf'' then Inr \<lparr>IsDir = False\<rparr>
                     else if p = ''/tmp/td'' then Inr \<lparr>IsDir = True\<rparr>
                     else Inl (LibError ''no such file or directory'')),
      os_Open = (\<lambda>p. if p = ''/tmp/td/mydoc.pdf'' then Inr (''pdfdata'', None)
                     else Inl (LibError ''no such file or directory'')),
      filepath_Join = (\<lambda>d f. d @ ''/'' @ f),
      filepath_Base = (\<lambda>p. if p = ''/tmp/td/mydoc.pdf'' then ''mydoc.pdf'' else p),
      filepath_Ext = (\<lambda>p. if p = ''mydoc.pdf'' then ''.pdf'' else []),
      mime_TypeByExtension = (\<lambda>x. if x = ''.pdf'' then ''application/pdf'' else []),
      url_QueryEscape = (\<lambda>s. s),
      json_Marshal = (\<lambda>j. Inr ''{}''),
      unmarshal_files = test_unmarshal_files,
      unmarshal_id = test_unmarshal_id,
      decode_token = test_decode_token,
      boundary = ''0123456789abcdef''\<rparr>"

definition test_server :: "string \<Rightarrow> int \<Rightarrow> string \<Rightarrow> int \<Rightarrow> string \<Rightarrow> request list \<Rightarrow> request \<Rightarrow> goerror + response" where
  "test_server searchBody uploadStatus uploadBody patchStatus patchBody hist rq =
     (if Method rq = ''GET'' then Inr \<lparr>StatusCode = 200, Body = searchBody\<rparr>
      else if Method rq = ''POST'' then Inr \<lparr>StatusCode = uploadStatus, Body = uploadBody\<rparr>
      else if Method rq = ''PATCH'' then Inr \<lparr>StatusCode = patchStatus, Body = patchBody\<rparr>
      else if Method rq = ''DELETE'' then Inr \<lparr>StatusCode = 204, Body = []\<rparr>
      else Inr \<lparr>StatusCode = 501, Body = ''not implemented in test''\<rparr>)"

definition srv_exists_v1 :: "request list \<Rightarrow> request \<Rightarrow> goerror + response" where
  \<open>srv_exists_v1 = test_server ''{"files":[{"id":"exid","name":"exists.pdf","description":"v1"}]}'' 200 [] 200 []\<close>

definition search_exists :: request where
  "search_exists = \<lparr>Method = ''GET'', URL = queryURL ''folder'' ''exists.pdf'',
                      Header = [(''Authorization'', ''Bearer token'')], Payload = NoBody\<rparr>"

definition search_mydoc :: request where
  "search_mydoc = \<lparr>Method = ''GET'', URL = queryURL ''final'' ''mydoc.pdf'',
                    Header = [(''Authorization'', ''Bearer token'')], Payload = NoBody\<rparr>"

definition upload_mydoc :: request where
  "upload_mydoc = \<lparr>Method = ''POST'', URL = uploadURL,
                    Header = [(''Authorization'', ''Bearer token''),
                              (''Content-Type'', ''multipart/form-data; boundary=0123456789abcdef'')],
                    Payload = Multipart ''0123456789abcdef''
                                [([(''Content-Type'', ''application/json; charset=UTF-8'')], ''{}''),
                                 ([(''Content-Type'', ''application/pdf'')], ''pdfdata'')]\<rparr>"

definition sharing_new :: request where
  "sharing_new = \<lparr>Method = ''PATCH'', URL = permURL ''new-file-id'',
                   Header = [(''Authorization'', ''Bearer token''), (''Content-Type'', ''application/json'')],
                   Payload = Bytes permBody\<rparr>"

definition move_new :: request where
  "move_new = \<lparr>Method = ''PATCH'', URL = moveNewURL ''new-file-id'' ''final'' ''temp'',
                Header = [(''Authorization'', ''Bearer token'')], Payload = NoBody\<rparr>"

definition token_server :: "string \<Rightarrow> request list \<Rightarrow> request \<Rightarrow> goerror + response" where
  "token_server body hist rq = Inr \<lparr>StatusCode = 200, Body = body\<rparr>"

definition token_request :: request where
  "token_request = \<lparr>Method = ''POST'', URL = tokenURL,
                     Header = [(''Content-Type'', ''application/json'')], Payload = Bytes ''{}''\<rparr>"

definition rename_old :: request where
  "rename_old = \<lparr>Method = ''PATCH'', URL = renameURL ''oldid'',
                  Header = [(''Authorization'', ''Bearer token''), (''Content-Type'', ''application/json'')],
                  Payload = Bytes (renameBody ''mydoc-oldver.pdf'')\<rparr>"


definition archive_old :: request where
  "archive_old = \<lparr>Method = ''PATCH'', URL = moveURL ''oldid'' ''old'' ''final'',
                   Header = [(''Authorization'', ''Bearer token'')], Payload = NoBody\<rparr>"

definition upload_file_req :: request where
  \<open>upload_file_req = \<lparr>Method = ''POST'', URL = uploadURL,
      Header = [(''Authorization'', ''Bearer token''),
                (''Content-Type'', ''multipart/related; boundary=0123456789abcdef'')],
      Payload = Multipart ''0123456789abcdef''
                  [([(''Content-Type'', ''application/json; charset=UTF-8'')], ''{}''),
                   ([(''Content-Type'', ''application/pdf''),
                     (''Content-Disposition'', Sprintf ''form-data; name="file"; filename="%s"'' [''mydoc.pdf''])],
                    ''pdfdata'')]\<rparr>\<close>

section \<open>The archived name in the words of the specification\<close>


section \<open>The claims\<close>

lemmas test_defs = test_env_def test_server_def test_unmarshal_files_def test_unmarshal_id_def
  test_decode_token_def http_NewRequest_def http_Do_def Header_Set_def set_Authorization_def
  set_ContentType_def set_ContentType_json_def sent_def Let_def

subsection \<open>Facts about the phases of DeployPDF\<close>

lemma NewRequest_Inr:
  "http_NewRequest e m u b = Inr rq \<Longrightarrow> rq = \<lparr>Method = m, URL = u, Header = [], Payload = b\<rparr>"
  by (simp add: http_NewRequest_def split: option.splits)

lemma setters_keep [simp]:
  "Method (set_Authorization t rq) = Method rq" "URL (set_Authorization t rq) = URL rq"
  "Payload (set_Authorization t rq) = Payload rq"
  "Method (set_ContentType v rq) = Method rq" "URL (set_ContentType v rq) = URL rq"
  "Payload (set_ContentType v rq) = Payload rq"
  "Method (set_ContentType_json rq) = Method rq" "URL (set_ContentType_json rq) = URL rq"
  "Payload (set_ContentType_json rq) = Payload rq"
  by (simp_all add: set_Authorization_def set_ContentType_def set_ContentType_json_def Header_Set_def)

lemma old_version_keeps_site:
  "s \<notin> {Rename, MoveArchive, Delete} \<Longrightarrow> s \<notin> fst ` set lg \<Longrightarrow>
   s \<notin> fst ` set (fst (deploy_old_version e accessToken fileName folderID oldFolderID existingFileID existingFileDesc lg))"
  by (simp add: deploy_old_version_def Let_def sent_def split: sum.splits)

lemma old_version_length:
  "length lg \<le> length (fst (deploy_old_version e accessToken fileName folderID oldFolderID existingFileID existingFileDesc lg))"
  by (simp add: deploy_old_version_def Let_def sent_def split: sum.splits)

lemma old_version_not_nil:
  "snd (deploy_old_version e accessToken fileName folderID oldFolderID existingFileID existingFileDesc lg) \<noteq> Some (Returns None)"
  by (simp add: deploy_old_version_def Let_def sent_def split: sum.splits)

lemma deploy_finish_move:
  assumes "deploy_finish e accessToken newFileID tempFolderID folderID lg0 = (lg @ [(MoveFinal, rq)], out)"
    and "MoveFinal \<notin> fst ` set lg0"
    and "http_Do e lg rq = Inr resp"
  shows \<open>out = (if bytes_Contains (Body resp) ''"id"'' then Returns None
               else Returns (Some (err_move_body (Body resp))))\<close>
  using assms
  by (auto simp: deploy_finish_def Let_def sent_def split: if_splits sum.splits)

lemma deploy_upload_move:
  assumes "deploy_upload e accessToken pdfFile pdfPath versionSafe tempFolderID folderID lg0 = (lg @ [(MoveFinal, rq)], out)"
    and "MoveFinal \<notin> fst ` set lg0"
    and "http_Do e lg rq = Inr resp"
  shows \<open>out = (if bytes_Contains (Body resp) ''"id"'' then Returns None
               else Returns (Some (err_move_body (Body resp))))\<close>
  using assms
  by (auto simp: deploy_upload_def Let_def sent_def split: if_splits sum.splits dest!: deploy_finish_move)

lemma DeployPDF_decoded:
  assumes "fileName \<noteq> []" "accessToken \<noteq> []" "tempFolderID \<noteq> []" "folderID \<noteq> []" "versionSafe \<noteq> []"
    and "os_Stat e (filepath_Join e sopDir (fileName @ ''.pdf'')) = Inr info"
    and "http_NewRequest e ''GET'' (queryURL folderID (url_QueryEscape e (fileName @ ''.pdf''))) NoBody = Inr req0"
    and "http_Do e [] (set_Authorization accessToken req0) = Inr resp"
    and "unmarshal_files e (Body resp) = Inr files"
  shows "DeployPDF e accessToken fileName versionSafe tempFolderID folderID oldFolderID sopDir =
     (if existingFileID_of files \<noteq> [] \<and> existingFileDesc_of files = versionSafe
      then ([(Search, set_Authorization accessToken req0)], Returns None)
      else (case snd (deploy_old_version e accessToken fileName folderID oldFolderID
                        (existingFileID_of files) (existingFileDesc_of files)
                        [(Search, set_Authorization accessToken req0)]) of
              Some out \<Rightarrow>
                (fst (deploy_old_version e accessToken fileName folderID oldFolderID
                        (existingFileID_of files) (existingFileDesc_of files)
                        [(Search, set_Authorization accessToken req0)]), out)
            | None \<Rightarrow>
                deploy_upload e accessToken (fileName @ ''.pdf'') (filepath_Join e sopDir (fileName @ ''.pdf''))
                  versionSafe tempFolderID folderID
                  (fst (deploy_old_version e accessToken fileName folderID oldFolderID
                          (existingFileID_of files) (existingFileDesc_of files)
                          [(Search, set_Authorization accessToken req0)]))))"
  using assms by (simp add: DeployPDF_def Let_def sent_def cong del: option.case_cong_weak)

lemma old_version_mem:
  "(s, rq) \<in> set (fst (deploy_old_version e accessToken fileName folderID oldFolderID existingFileID existingFileDesc lg))
   \<Longrightarrow> s \<notin> {Rename, MoveArchive, Delete} \<Longrightarrow> (s, rq) \<in> set lg"
  by (auto simp: deploy_old_version_def Let_def sent_def split: sum.splits if_splits)


lemma old_version_none:
  "existingFileID = [] \<Longrightarrow>
   deploy_old_version e accessToken fileName folderID oldFolderID existingFileID existingFileDesc lg = (lg, None)"
  by (simp add: deploy_old_version_def)

lemma deploy_finish_mem:
  "(s, rq) \<in> set (fst (deploy_finish e accessToken newFileID tempFolderID folderID lg))
   \<Longrightarrow> s \<notin> {SetSharing, MoveFinal} \<Longrightarrow> (s, rq) \<in> set lg"
  by (auto simp: deploy_finish_def Let_def sent_def split: sum.splits if_splits)

lemma deploy_upload_mem:
  "(s, rq) \<in> set (fst (deploy_upload e accessToken pdfFile pdfPath versionSafe tempFolderID folderID lg))
   \<Longrightarrow> s \<notin> {Upload, SetSharing, MoveFinal} \<Longrightarrow> (s, rq) \<in> set lg"
  by (auto simp: deploy_upload_def Let_def sent_def split: sum.splits if_splits dest: deploy_finish_mem)

lemma deploy_finish_nil:
  "deploy_finish e accessToken newFileID tempFolderID folderID lg = (L, Returns None)
   \<Longrightarrow> \<exists>rqS rqM. L = lg @ [(SetSharing, rqS), (MoveFinal, rqM)] \<and> Method rqS = ''PATCH'' \<and> Method rqM = ''PATCH''"
  by (auto simp: deploy_finish_def Let_def sent_def split: sum.splits if_splits dest!: NewRequest_Inr)

lemma deploy_upload_nil:
  "deploy_upload e accessToken pdfFile pdfPath versionSafe tempFolderID folderID lg = (L, Returns None)
   \<Longrightarrow> \<exists>rqU rqS rqM. L = lg @ [(Upload, rqU), (SetSharing, rqS), (MoveFinal, rqM)]
         \<and> Method rqU = ''POST'' \<and> Method rqS = ''PATCH'' \<and> Method rqM = ''PATCH''"
  by (auto simp: deploy_upload_def Let_def sent_def split: sum.splits if_splits
           dest!: NewRequest_Inr deploy_finish_nil)


lemma DeployPDF_reached:
  assumes "fst (DeployPDF e accessToken fileName versionSafe tempFolderID folderID oldFolderID sopDir) \<noteq> []"
  shows "\<exists>info req0.
         fileName \<noteq> [] \<and> accessToken \<noteq> [] \<and> tempFolderID \<noteq> [] \<and> folderID \<noteq> [] \<and> versionSafe \<noteq> []
         \<and> os_Stat e (filepath_Join e sopDir (fileName @ ''.pdf'')) = Inr info
         \<and> http_NewRequest e ''GET'' (queryURL folderID (url_QueryEscape e (fileName @ ''.pdf''))) NoBody = Inr req0"
proof (cases "fileName = [] \<or> accessToken = [] \<or> tempFolderID = [] \<or> folderID = [] \<or> versionSafe = []")
  case True
  with assms show ?thesis by (auto simp: DeployPDF_def Let_def split: sum.splits)
next
  case ne: False
  show ?thesis
  proof (cases "os_Stat e (filepath_Join e sopDir (fileName @ ''.pdf''))")
    case (Inl err)
    with ne assms show ?thesis by (simp add: DeployPDF_def Let_def)
  next
    case st: (Inr info)
    show ?thesis
    proof (cases "http_NewRequest e ''GET'' (queryURL folderID (url_QueryEscape e (fileName @ ''.pdf''))) NoBody")
      case (Inl err)
      with ne st assms show ?thesis by (simp add: DeployPDF_def Let_def)
    next
      case (Inr req0)
      with ne st show ?thesis by blast
    qed
  qed
qed

lemma DeployPDF_not_decoded:
  assumes "fileName \<noteq> []" "accessToken \<noteq> []" "tempFolderID \<noteq> []" "folderID \<noteq> []" "versionSafe \<noteq> []"
    and "os_Stat e (filepath_Join e sopDir (fileName @ ''.pdf'')) = Inr info"
    and "http_NewRequest e ''GET'' (queryURL folderID (url_QueryEscape e (fileName @ ''.pdf''))) NoBody = Inr req0"
    and "http_Do e [] (set_Authorization accessToken req0) = Inl err
         \<or> (\<exists>resp. http_Do e [] (set_Authorization accessToken req0) = Inr resp \<and> unmarshal_files e (Body resp) = Inl err)"
  shows "DeployPDF e accessToken fileName versionSafe tempFolderID folderID oldFolderID sopDir
           = ([(Search, set_Authorization accessToken req0)], Returns (Some err))"
  using assms by (auto simp: DeployPDF_def Let_def sent_def)

lemma DeployPDF_search_mem:
  assumes "fileName \<noteq> []" "accessToken \<noteq> []" "tempFolderID \<noteq> []" "folderID \<noteq> []" "versionSafe \<noteq> []"
    and "os_Stat e (filepath_Join e sopDir (fileName @ ''.pdf'')) = Inr info"
    and "http_NewRequest e ''GET'' (queryURL folderID (url_QueryEscape e (fileName @ ''.pdf''))) NoBody = Inr req0"
    and mem: "(Search, rq) \<in> set (fst (DeployPDF e accessToken fileName versionSafe tempFolderID folderID oldFolderID sopDir))"
  shows "rq = set_Authorization accessToken req0"
proof (cases "http_Do e [] (set_Authorization accessToken req0)")
  case (Inl err)
  with DeployPDF_not_decoded [OF assms(1-7), of err oldFolderID] mem show ?thesis by simp
next
  case d: (Inr resp)
  show ?thesis
  proof (cases "unmarshal_files e (Body resp)")
    case (Inl err)
    with d DeployPDF_not_decoded [OF assms(1-7), of err oldFolderID] mem show ?thesis by simp
  next
    case (Inr files)
    note eq = DeployPDF_decoded [OF assms(1-7) d Inr, of oldFolderID]
    let ?lg0 = "[(Search, set_Authorization accessToken req0)]"
    let ?old = "deploy_old_version e accessToken fileName folderID oldFolderID
                  (existingFileID_of files) (existingFileDesc_of files) ?lg0"
    have "(Search, rq) \<in> set (fst ?old) \<or> (Search, rq) \<in> set ?lg0"
      using mem eq by (auto split: if_splits option.splits dest: deploy_upload_mem)
    then have "(Search, rq) \<in> set ?lg0"
      by (auto dest: old_version_mem)
    then show ?thesis by simp
  qed
qed

lemma first_site_split:
  "xs @ (s, a) # ys = xs' @ (s, b) # ys' \<Longrightarrow> s \<notin> fst ` set xs \<Longrightarrow> s \<notin> fst ` set ys
   \<Longrightarrow> xs' = xs \<and> b = a \<and> ys' = ys"
proof (induction xs arbitrary: xs')
  case Nil
  then show ?case by (cases xs') (auto simp: image_iff)
next
  case (Cons x xs)
  then show ?case by (cases xs') (auto simp: image_iff)
qed

lemma deploy_finish_ext:
  "\<exists>ext. fst (deploy_finish e accessToken newFileID tempFolderID folderID lg) = lg @ ext
         \<and> Upload \<notin> fst ` set ext
         \<and> (ext = [] \<longrightarrow> snd (deploy_finish e accessToken newFileID tempFolderID folderID lg) = Panics)"
  by (simp add: deploy_finish_def Let_def sent_def split: sum.splits)

lemma deploy_upload_shape:
  "(\<exists>out. deploy_upload e accessToken pdfFile pdfPath versionSafe tempFolderID folderID lg0 = (lg0, out))
   \<or> (\<exists>req ext out.
         deploy_upload e accessToken pdfFile pdfPath versionSafe tempFolderID folderID lg0
           = (lg0 @ (Upload, req) # ext, out)
         \<and> Upload \<notin> fst ` set ext
         \<and> (case http_Do e lg0 req of
               Inl err \<Rightarrow> ext = [] \<and> out = Returns (Some (err_upload err))
             | Inr r \<Rightarrow>
                 (case unmarshal_id e (Body r) of
                    Inl err \<Rightarrow> ext = [] \<and> out = Returns (Some (err_upload_body (Body r)))
                  | Inr newFileID \<Rightarrow>
                      if newFileID = [] then ext = [] \<and> out = Returns (Some (err_upload_body (Body r)))
                      else (ext = [] \<longrightarrow> out = Panics))))"
proof (cases "os_Open e pdfPath")
  case (Inl err)
  then show ?thesis by (simp add: deploy_upload_def)
next
  case f: (Inr f)
  show ?thesis
  proof (cases "http_NewRequest e ''POST'' uploadURL
                  (deploy_buf e (deploy_metadata pdfFile tempFolderID versionSafe) (fst f))")
    case (Inl err)
    with f show ?thesis by (simp add: deploy_upload_def Let_def)
  next
    case nr: (Inr req0)
    let ?req = "set_ContentType (FormDataContentType (boundary e)) (set_Authorization accessToken req0)"
    show ?thesis
    proof (cases "http_Do e lg0 ?req")
      case (Inl err)
      with f nr show ?thesis by (simp add: deploy_upload_def Let_def sent_def)
    next
      case d: (Inr r)
      show ?thesis
      proof (cases "unmarshal_id e (Body r)")
        case (Inl err)
        with f nr d show ?thesis by (simp add: deploy_upload_def Let_def sent_def)
      next
        case u: (Inr newFileID)
        show ?thesis
        proof (cases "newFileID = []")
          case True
          with f nr d u show ?thesis by (simp add: deploy_upload_def Let_def sent_def)
        next
          case False
          from deploy_finish_ext [of e accessToken newFileID tempFolderID folderID "lg0 @ [(Upload, ?req)]"]
          obtain ext where ext:
            "fst (deploy_finish e accessToken newFileID tempFolderID folderID (lg0 @ [(Upload, ?req)]))
               = (lg0 @ [(Upload, ?req)]) @ ext"
            "Upload \<notin> fst ` set ext"
            "ext = [] \<longrightarrow> snd (deploy_finish e accessToken newFileID tempFolderID folderID (lg0 @ [(Upload, ?req)])) = Panics"
            by blast
          have "deploy_upload e accessToken pdfFile pdfPath versionSafe tempFolderID folderID lg0
                  = deploy_finish e accessToken newFileID tempFolderID folderID (lg0 @ [(Upload, ?req)])"
            using f nr d u False by (simp add: deploy_upload_def Let_def sent_def)
          then have "deploy_upload e accessToken pdfFile pdfPath versionSafe tempFolderID folderID lg0
                  = (lg0 @ (Upload, ?req) # ext,
                     snd (deploy_finish e accessToken newFileID tempFolderID folderID (lg0 @ [(Upload, ?req)])))"
            using ext(1) by (simp add: prod_eq_iff)
          with ext(2,3) d u False show ?thesis by auto
        qed
      qed
    qed
  qed
qed

lemma deploy_upload_at:
  assumes run: "deploy_upload e accessToken pdfFile pdfPath versionSafe tempFolderID folderID lg0
                  = (lg @ (Upload, rq) # rest, out)"
    and site: "Upload \<notin> fst ` set lg0"
    and d: "http_Do e lg rq = Inr resp"
  shows "(rest = [] \<and> out = Returns (Some (err_upload_body (Body resp))))
           \<longleftrightarrow> (case unmarshal_id e (Body resp) of Inl err \<Rightarrow> True | Inr newFileID \<Rightarrow> newFileID = [])"
proof -
  from deploy_upload_shape [of e accessToken pdfFile pdfPath versionSafe tempFolderID folderID lg0]
  consider (stop) out' where
      "deploy_upload e accessToken pdfFile pdfPath versionSafe tempFolderID folderID lg0 = (lg0, out')"
    | (sent) req ext out' where
      "deploy_upload e accessToken pdfFile pdfPath versionSafe tempFolderID folderID lg0
         = (lg0 @ (Upload, req) # ext, out')"
      "Upload \<notin> fst ` set ext"
      "case http_Do e lg0 req of
         Inl err \<Rightarrow> ext = [] \<and> out' = Returns (Some (err_upload err))
       | Inr r \<Rightarrow>
           (case unmarshal_id e (Body r) of
              Inl err \<Rightarrow> ext = [] \<and> out' = Returns (Some (err_upload_body (Body r)))
            | Inr newFileID \<Rightarrow>
                if newFileID = [] then ext = [] \<and> out' = Returns (Some (err_upload_body (Body r)))
                else (ext = [] \<longrightarrow> out' = Panics))"
    by blast
  then show ?thesis
  proof cases
    case stop
    with run have "lg0 = lg @ (Upload, rq) # rest" by simp
    with site show ?thesis by (simp add: image_iff)
  next
    case sent
    from sent(1) run have "lg0 @ (Upload, req) # ext = lg @ (Upload, rq) # rest" and o: "out' = out" by simp_all
    from first_site_split [OF this(1) site sent(2)] have eqs: "lg = lg0" "rq = req" "rest = ext" by simp_all
    from sent(3) d eqs o show ?thesis
      by (auto split: sum.splits if_splits)
  qed
qed

lemma CheckRemote_reached:
  "fst (CheckRemoteVersionExists e accessToken fileName folderID versionSafe) = [(Search, rq)]
   \<Longrightarrow> accessToken \<noteq> [] \<and> fileName \<noteq> [] \<and> folderID \<noteq> [] \<and> versionSafe \<noteq> []
       \<and> (\<exists>req0. http_NewRequest e ''GET'' (queryURL folderID (url_QueryEscape e (fileName @ ''.pdf''))) NoBody = Inr req0
                  \<and> rq = set_Authorization accessToken req0)"
  by (auto simp: CheckRemoteVersionExists_def Let_def sent_def split: if_splits sum.splits)


lemma DeployPDF_decoded_or_stopped:
  assumes "fileName \<noteq> []" "accessToken \<noteq> []" "tempFolderID \<noteq> []" "folderID \<noteq> []" "versionSafe \<noteq> []"
    and "os_Stat e (filepath_Join e sopDir (fileName @ ''.pdf'')) = Inr info"
    and "http_NewRequest e ''GET'' (queryURL folderID (url_QueryEscape e (fileName @ ''.pdf''))) NoBody = Inr req0"
  shows "(\<exists>err. DeployPDF e accessToken fileName versionSafe tempFolderID folderID oldFolderID sopDir
                  = ([(Search, set_Authorization accessToken req0)], Returns (Some err)))
         \<or> (\<exists>sresp files. http_Do e [] (set_Authorization accessToken req0) = Inr sresp
                          \<and> unmarshal_files e (Body sresp) = Inr files)"
proof (cases "\<exists>sresp files. http_Do e [] (set_Authorization accessToken req0) = Inr sresp
                          \<and> unmarshal_files e (Body sresp) = Inr files")
  case True
  then show ?thesis by blast
next
  case False
  then obtain err where
    "http_Do e [] (set_Authorization accessToken req0) = Inl err
     \<or> (\<exists>r. http_Do e [] (set_Authorization accessToken req0) = Inr r \<and> unmarshal_files e (Body r) = Inl err)"
    by (metis sum.exhaust)
  from DeployPDF_not_decoded [OF assms this, of oldFolderID] show ?thesis by blast
qed

lemma DeployPDF_upload_at:
  assumes run: "DeployPDF e accessToken fileName versionSafe tempFolderID folderID oldFolderID sopDir
                  = (lg @ (Upload, rq) # rest, out)"
    and d: "http_Do e lg rq = Inr resp"
  shows "(rest = [] \<and> out = Returns (Some (err_upload_body (Body resp))))
           \<longleftrightarrow> (case unmarshal_id e (Body resp) of Inl err \<Rightarrow> True | Inr newFileID \<Rightarrow> newFileID = [])"
proof -
  from run have "fst (DeployPDF e accessToken fileName versionSafe tempFolderID folderID oldFolderID sopDir) \<noteq> []"
    by simp
  from DeployPDF_reached [OF this] obtain info req0 where front0:
    "fileName \<noteq> []" "accessToken \<noteq> []" "tempFolderID \<noteq> []" "folderID \<noteq> []" "versionSafe \<noteq> []"
    "os_Stat e (filepath_Join e sopDir (fileName @ ''.pdf'')) = Inr info"
    "http_NewRequest e ''GET'' (queryURL folderID (url_QueryEscape e (fileName @ ''.pdf''))) NoBody = Inr req0"
    by blast
  let ?lg0 = "[(Search, set_Authorization accessToken req0)]"
  have nolg0: "?lg0 \<noteq> lg @ (Upload, rq) # rest"
    by (cases lg) auto
  from DeployPDF_decoded_or_stopped [OF front0, of oldFolderID] run nolg0
  obtain sresp files where dec:
    "http_Do e [] (set_Authorization accessToken req0) = Inr sresp"
    "unmarshal_files e (Body sresp) = Inr files"
    by auto
  note eq = DeployPDF_decoded [OF front0 dec, of oldFolderID]
  let ?old = "deploy_old_version e accessToken fileName folderID oldFolderID
                (existingFileID_of files) (existingFileDesc_of files) ?lg0"
  have site: "Upload \<notin> fst ` set (fst ?old)"
    by (rule old_version_keeps_site) simp_all
  show ?thesis
  proof (cases "existingFileID_of files \<noteq> [] \<and> existingFileDesc_of files = versionSafe")
    case True
    with eq run nolg0 show ?thesis by simp
  next
    case nskip: False
    show ?thesis
    proof (cases "snd ?old")
      case (Some o')
      with eq nskip run have "fst ?old = lg @ (Upload, rq) # rest" by simp
      with site show ?thesis by (simp add: image_iff)
    next
      case None
      with eq nskip run have
        "deploy_upload e accessToken (fileName @ ''.pdf'') (filepath_Join e sopDir (fileName @ ''.pdf''))
           versionSafe tempFolderID folderID (fst ?old) = (lg @ (Upload, rq) # rest, out)"
        by simp
      from deploy_upload_at [OF this site d] show ?thesis .
    qed
  qed
qed

subsection \<open>Runs in the concrete environments\<close>

lemma FormData_test: "FormDataContentType ''0123456789abcdef'' = ''multipart/form-data; boundary=0123456789abcdef''"
  by (simp add: FormDataContentType_def strings_ContainsAny_def)

lemma run_no_existing:
  \<open>DeployPDF (test_env (test_server ''{"files": []}'' us ''{"id":"new-file-id"}'' ps pb))
      ''token'' ''mydoc'' ''v1'' ''temp'' ''final'' old ''/tmp/td''
    = ([(Search, search_mydoc), (Upload, upload_mydoc), (SetSharing, sharing_new), (MoveFinal, move_new)],
       if bytes_Contains pb ''"id"'' then Returns None else Returns (Some (err_move_body pb)))\<close>
  by (simp add: DeployPDF_def deploy_old_version_def deploy_upload_def deploy_finish_def existingFileID_of_def
        existingFileDesc_of_def deploy_buf_def deploy_metadata_def test_defs FormData_test
        search_mydoc_def upload_mydoc_def sharing_new_def move_new_def)

lemma run_archive:
  \<open>DeployPDF (test_env (test_server ''{"files":[{"id":"oldid","name":"mydoc.pdf","description":"oldver"}]}''
                                    us ''{"id":"new-file-id"}'' ps pb))
      ''token'' ''mydoc'' ''v1'' ''temp'' ''final'' ''old'' ''/tmp/td''
    = ([(Search, search_mydoc), (Rename, rename_old), (MoveArchive, archive_old),
        (Upload, upload_mydoc), (SetSharing, sharing_new), (MoveFinal, move_new)],
       if bytes_Contains pb ''"id"'' then Returns None else Returns (Some (err_move_body pb)))\<close>
  by (simp add: DeployPDF_def deploy_old_version_def deploy_upload_def deploy_finish_def existingFileID_of_def
        existingFileDesc_of_def deploy_buf_def deploy_metadata_def renamedFile_def test_defs FormData_test
        search_mydoc_def upload_mydoc_def sharing_new_def move_new_def rename_old_def archive_old_def)


lemma search_answer:
  "http_Do (test_env (test_server sb us ub ps pb)) [] search_mydoc = Inr \<lparr>StatusCode = 200, Body = sb\<rparr>"
  by (simp add: test_env_def test_server_def http_Do_def search_mydoc_def)

lemma run_upload:
  \<open>UploadFileToDrive (test_env (test_server sb us ''{"id":"new-file-id"}'' ps pb)) ''token'' ''temp'' ''/tmp/td/mydoc.pdf''
     = ([(Upload, upload_file_req)],
        if us < 200 \<or> 300 \<le> us then ([], Some (err_upload_status us ''{"id":"new-file-id"}''))
        else (''new-file-id'', None))\<close>
  by (simp add: UploadFileToDrive_def upload_buf_def upload_meta_def test_defs upload_file_req_def uploadURL_def)

lemma upload_answer:
  "http_Do (test_env (test_server sb us ub ps pb)) [] upload_file_req = Inr \<lparr>StatusCode = us, Body = ub\<rparr>"
  by (simp add: test_env_def test_server_def http_Do_def upload_file_req_def)

lemma upload_answer_deploy:
  "http_Do (test_env (test_server sb us ub ps pb)) lg upload_mydoc = Inr \<lparr>StatusCode = us, Body = ub\<rparr>"
  by (simp add: test_env_def test_server_def http_Do_def upload_mydoc_def)

lemma run_upload_rejected:
  \<open>DeployPDF (test_env (test_server ''{"files": []}'' us ''{"error":"boom"}'' ps pb))
      ''token'' ''mydoc'' ''v1'' ''temp'' ''final'' old ''/tmp/td''
    = ([(Search, search_mydoc), (Upload, upload_mydoc)], Returns (Some (err_upload_body ''{"error":"boom"}'')))\<close>
  by (simp add: DeployPDF_def deploy_old_version_def deploy_upload_def existingFileID_of_def
        existingFileDesc_of_def deploy_buf_def deploy_metadata_def test_defs FormData_test
        search_mydoc_def upload_mydoc_def)

lemma run_skip:
  \<open>DeployPDF (test_env (test_server ''{"files":[{"id":"oldid","name":"mydoc.pdf","description":"oldver"}]}'' us ub ps pb))
      ''token'' ''mydoc'' ''oldver'' ''temp'' ''final'' old ''/tmp/td''
    = ([(Search, search_mydoc)], Returns None)\<close>
  by (simp add: DeployPDF_def existingFileID_of_def existingFileDesc_of_def test_defs search_mydoc_def)

lemma run_empty_id:
  \<open>DeployPDF (test_env (test_server ''{"files":[{"id":"","name":"mydoc.pdf","description":"v1"}]}''
                                    us ''{"id":"new-file-id"}'' ps pb))
      ''token'' ''mydoc'' ''v1'' ''temp'' ''final'' old ''/tmp/td''
    = ([(Search, search_mydoc), (Upload, upload_mydoc), (SetSharing, sharing_new), (MoveFinal, move_new)],
       if bytes_Contains pb ''"id"'' then Returns None else Returns (Some (err_move_body pb)))\<close>
  by (simp add: DeployPDF_def deploy_old_version_def deploy_upload_def deploy_finish_def existingFileID_of_def
        existingFileDesc_of_def deploy_buf_def deploy_metadata_def test_defs FormData_test
        search_mydoc_def upload_mydoc_def sharing_new_def move_new_def)

subsection \<open>C1: the result of CheckRemoteVersionExists\<close>

text \<open>
  C1. Whenever \<open>CheckRemoteVersionExists\<close> made its search call, the transport
  answered with a response and the response decoded to the list \<open>files\<close>, the function
  returns \<open>(b, nil)\<close> where \<open>b\<close> is true exactly when \<open>files\<close> is not empty and the
  description of its first entry equals \<open>versionSafe\<close>; the comparison is equality of
  the two byte strings, with no trimming and no change of case. In every other such
  case the result is \<open>(false, nil)\<close>.
\<close>

theorem CheckRemoteVersionExists_true_iff:
  assumes "fst (CheckRemoteVersionExists e accessToken fileName folderID versionSafe) = [(Search, rq)]"
    and "http_Do e [] rq = Inr resp"
    and "unmarshal_files e (Body resp) = Inr files"
  shows "snd (CheckRemoteVersionExists e accessToken fileName folderID versionSafe)
           = (files \<noteq> [] \<and> Description (hd files) = versionSafe, None)"
  using assms
  by (auto simp: CheckRemoteVersionExists_def Let_def sent_def hd_conv_nth
           split: if_splits sum.splits)

text \<open>
  The example of the specification: the entry's description is \<open>v1\<close>; the label \<open>v1\<close>
  gives true, the label \<open>V1\<close> gives false.
\<close>

theorem CheckRemoteVersionExists_true_iff_witness:
  \<open>fst (CheckRemoteVersionExists (test_env srv_exists_v1) ''token'' ''exists'' ''folder'' ''v1'') = [(Search, search_exists)]
   \<and> http_Do (test_env srv_exists_v1) [] search_exists
        = Inr \<lparr>StatusCode = 200, Body = ''{"files":[{"id":"exid","name":"exists.pdf","description":"v1"}]}''\<rparr>
   \<and> snd (CheckRemoteVersionExists (test_env srv_exists_v1) ''token'' ''exists'' ''folder'' ''v1'') = (True, None)
   \<and> fst (CheckRemoteVersionExists (test_env srv_exists_v1) ''token'' ''exists'' ''folder'' ''V1'') = [(Search, search_exists)]
   \<and> snd (CheckRemoteVersionExists (test_env srv_exists_v1) ''token'' ''exists'' ''folder'' ''V1'') = (False, None)\<close>
proof -
  let ?e = "test_env srv_exists_v1"
  let ?resp = \<open>\<lparr>StatusCode = 200, Body = ''{"files":[{"id":"exid","name":"exists.pdf","description":"v1"}]}''\<rparr>\<close>
  let ?files = "[\<lparr>ID = ''exid'', Name = ''exists.pdf'', Description = ''v1''\<rparr>]"
  have l1: "fst (CheckRemoteVersionExists ?e ''token'' ''exists'' ''folder'' ''v1'') = [(Search, search_exists)]"
    by (simp add: CheckRemoteVersionExists_def test_defs srv_exists_v1_def search_exists_def)
  have l2: "fst (CheckRemoteVersionExists ?e ''token'' ''exists'' ''folder'' ''V1'') = [(Search, search_exists)]"
    by (simp add: CheckRemoteVersionExists_def test_defs srv_exists_v1_def search_exists_def)
  have d: "http_Do ?e [] search_exists = Inr ?resp"
    by (simp add: test_defs srv_exists_v1_def search_exists_def)
  have u: "unmarshal_files ?e (Body ?resp) = Inr ?files"
    by (simp add: test_defs)
  show ?thesis
    using CheckRemoteVersionExists_true_iff [OF l1 d u] CheckRemoteVersionExists_true_iff [OF l2 d u] l1 l2 d
    by simp
qed

subsection \<open>C6: the result of GetGoogleAccessToken\<close>

text \<open>
  C6, as the code has it. \<open>GetGoogleAccessToken\<close> never returns both a token and an
  error. Whenever it made its call and the transport answered: when the body decodes
  into \<open>GoogleTokenResponse\<close>, it returns the \<open>access_token\<close> string unchanged with no
  error when that field is present and not empty, and the empty string with the error
  \<open>no access_token in response\<close> when the field is missing or empty (the decoder leaves
  a missing field empty); when the body does not decode, which happens also for
  well-formed JSON whose \<open>expires_in\<close> is not a number, it returns the empty string
  and the error \<open>failed to decode token response\<close> wrapping the decoder's error,
  whatever \<open>access_token\<close> holds.
\<close>

theorem GetGoogleAccessToken_token_iff:
  "(fst (snd (GetGoogleAccessToken e clientID clientSecret refreshToken)) = []
      \<or> snd (snd (GetGoogleAccessToken e clientID clientSecret refreshToken)) = None)
   \<and> (\<forall>rq resp tokenResp.
         fst (GetGoogleAccessToken e clientID clientSecret refreshToken) = [(TokenPost, rq)]
         \<and> http_Do e [] rq = Inr resp
         \<and> decode_token e (Body resp) = Inr tokenResp
         \<longrightarrow> snd (GetGoogleAccessToken e clientID clientSecret refreshToken)
               = (if AccessToken tokenResp \<noteq> [] then (AccessToken tokenResp, None)
                  else ([], Some err_no_access_token)))
   \<and> (\<forall>rq resp err.
         fst (GetGoogleAccessToken e clientID clientSecret refreshToken) = [(TokenPost, rq)]
         \<and> http_Do e [] rq = Inr resp
         \<and> decode_token e (Body resp) = Inl err
         \<longrightarrow> snd (GetGoogleAccessToken e clientID clientSecret refreshToken)
               = ([], Some (Errorf ''failed to decode token response: %w'' [ArgW err])))"
  by (auto simp: GetGoogleAccessToken_def Let_def sent_def err_decode_token_def split: if_splits sum.splits)

theorem GetGoogleAccessToken_token_iff_witness:
  \<open>fst (GetGoogleAccessToken
          (test_env (token_server ''{"access_token":"tok-123","expires_in":3600,"token_type":"Bearer"}''))
          ''id'' ''secret'' ''refresh'') = [(TokenPost, token_request)]
   \<and> snd (GetGoogleAccessToken
          (test_env (token_server ''{"access_token":"tok-123","expires_in":3600,"token_type":"Bearer"}''))
          ''id'' ''secret'' ''refresh'') = (''tok-123'', None)
   \<and> fst (GetGoogleAccessToken (test_env (token_server ''{"expires_in":3600}''))
          ''id'' ''secret'' ''refresh'') = [(TokenPost, token_request)]
   \<and> snd (GetGoogleAccessToken (test_env (token_server ''{"expires_in":3600}''))
          ''id'' ''secret'' ''refresh'') = ([], Some err_no_access_token)\<close>
proof -
  let ?b1 = \<open>''{"access_token":"tok-123","expires_in":3600,"token_type":"Bearer"}''\<close>
  let ?b2 = \<open>''{"expires_in":3600}''\<close>
  let ?e1 = "test_env (token_server ?b1)"
  let ?e2 = "test_env (token_server ?b2)"
  have l1: "fst (GetGoogleAccessToken ?e1 ''id'' ''secret'' ''refresh'') = [(TokenPost, token_request)]"
    by (simp add: GetGoogleAccessToken_def test_defs token_server_def token_request_def)
  have l2: "fst (GetGoogleAccessToken ?e2 ''id'' ''secret'' ''refresh'') = [(TokenPost, token_request)]"
    by (simp add: GetGoogleAccessToken_def test_defs token_server_def token_request_def)
  have d1: "http_Do ?e1 [] token_request = Inr \<lparr>StatusCode = 200, Body = ?b1\<rparr>"
    by (simp add: test_env_def http_Do_def token_server_def)
  have d2: "http_Do ?e2 [] token_request = Inr \<lparr>StatusCode = 200, Body = ?b2\<rparr>"
    by (simp add: test_env_def http_Do_def token_server_def)
  have u1: "decode_token ?e1 (Body \<lparr>StatusCode = 200, Body = ?b1\<rparr>)
              = Inr \<lparr>AccessToken = ''tok-123'', ExpiresIn = 3600, TokenType = ''Bearer''\<rparr>"
    by (simp add: test_env_def test_decode_token_def)
  have u2: "decode_token ?e2 (Body \<lparr>StatusCode = 200, Body = ?b2\<rparr>)
              = Inr \<lparr>AccessToken = [], ExpiresIn = 3600, TokenType = []\<rparr>"
    by (simp add: test_env_def test_decode_token_def)
  have r1: "snd (GetGoogleAccessToken ?e1 ''id'' ''secret'' ''refresh'') = (''tok-123'', None)"
    using GetGoogleAccessToken_token_iff [of ?e1 "''id''" "''secret''" "''refresh''"] l1 d1 u1
    by fastforce
  have r2: "snd (GetGoogleAccessToken ?e2 ''id'' ''secret'' ''refresh'') = ([], Some err_no_access_token)"
    using GetGoogleAccessToken_token_iff [of ?e2 "''id''" "''secret''" "''refresh''"] l2 d2 u2
    by fastforce
  from l1 r1 l2 r2 show ?thesis by blast
qed

text \<open>
  The claim fails for the well-formed body \<open>{"access_token":"tok","expires_in":"3600"}\<close>:
  \<open>access_token\<close> is present and not empty, but \<open>expires_in\<close> is a JSON string where
  the field \<open>ExpiresIn\<close> is an \<open>int\<close>, so the decoder returns an error and the function
  returns no token.
\<close>

theorem GetGoogleAccessToken_token_counterexample:
  \<open>fst (GetGoogleAccessToken (test_env (token_server ''{"access_token":"tok","expires_in":"3600"}''))
          ''id'' ''secret'' ''refresh'') = [(TokenPost, token_request)]
   \<and> http_Do (test_env (token_server ''{"access_token":"tok","expires_in":"3600"}'')) [] token_request
       = Inr \<lparr>StatusCode = 200, Body = ''{"access_token":"tok","expires_in":"3600"}''\<rparr>
   \<and> snd (GetGoogleAccessToken (test_env (token_server ''{"access_token":"tok","expires_in":"3600"}''))
          ''id'' ''secret'' ''refresh'')
       = ([], Some (Errorf ''failed to decode token response: %w''
                     [ArgW (LibError ''json: cannot unmarshal string into Go struct field GoogleTokenResponse.expires_in of type int'')]))\<close>
  by (simp add: GetGoogleAccessToken_def test_defs token_server_def token_request_def err_decode_token_def)

subsection \<open>C7: the check of the final move\<close>

text \<open>
  C7. Whenever the last call of \<open>DeployPDF\<close> was the move to the final folder and the
  transport answered it with \<open>resp\<close>, the function returns \<open>nil\<close> when the body of
  \<open>resp\<close> contains the four bytes \<open>"id"\<close> (quotes included), and the error
  \<open>upload succeeded, but move failed\<close> carrying the body when it does not. The status
  code of \<open>resp\<close> plays no part: a 2xx answer without the bytes is a failure, and any
  answer with them is a success.
\<close>

theorem DeployPDF_final_move_checks_body:
  assumes run: "DeployPDF e accessToken fileName versionSafe tempFolderID folderID oldFolderID sopDir
             = (lg @ [(MoveFinal, rq)], out)"
    and resp: "http_Do e lg rq = Inr resp"
  shows \<open>out = (if bytes_Contains (Body resp) ''"id"'' then Returns None
               else Returns (Some (err_move_body (Body resp))))\<close>
proof -
  from run have "fst (DeployPDF e accessToken fileName versionSafe tempFolderID folderID oldFolderID sopDir) \<noteq> []"
    by simp
  from DeployPDF_reached [OF this] obtain info req0 where front0:
    "fileName \<noteq> []" "accessToken \<noteq> []" "tempFolderID \<noteq> []" "folderID \<noteq> []" "versionSafe \<noteq> []"
    "os_Stat e (filepath_Join e sopDir (fileName @ ''.pdf'')) = Inr info"
    "http_NewRequest e ''GET'' (queryURL folderID (url_QueryEscape e (fileName @ ''.pdf''))) NoBody = Inr req0"
    by blast
  have "\<exists>sresp files. http_Do e [] (set_Authorization accessToken req0) = Inr sresp
                      \<and> unmarshal_files e (Body sresp) = Inr files"
  proof (rule ccontr)
    assume "\<not> ?thesis"
    then obtain err where
      "http_Do e [] (set_Authorization accessToken req0) = Inl err
       \<or> (\<exists>r. http_Do e [] (set_Authorization accessToken req0) = Inr r \<and> unmarshal_files e (Body r) = Inl err)"
      by (metis sum.exhaust)
    from DeployPDF_not_decoded [OF front0 this, of oldFolderID] run show False by simp
  qed
  then obtain sresp files where dec:
    "http_Do e [] (set_Authorization accessToken req0) = Inr sresp"
    "unmarshal_files e (Body sresp) = Inr files"
    by blast
  note front = front0 dec
  let ?lg0 = "[(Search, set_Authorization accessToken req0)]"
  let ?old = "deploy_old_version e accessToken fileName folderID oldFolderID
                (existingFileID_of files) (existingFileDesc_of files) ?lg0"
  have site: "MoveFinal \<notin> fst ` set (fst ?old)"
    by (rule old_version_keeps_site) simp_all
  note eq = DeployPDF_decoded [OF front, of oldFolderID]
  show ?thesis
  proof (cases "existingFileID_of files \<noteq> [] \<and> existingFileDesc_of files = versionSafe")
    case True
    with eq run show ?thesis by simp
  next
    case nskip: False
    show ?thesis
    proof (cases "snd ?old")
      case (Some o')
      with eq nskip run have "fst ?old = lg @ [(MoveFinal, rq)]" by simp
      with site show ?thesis by simp
    next
      case None
      with eq nskip run have
        "deploy_upload e accessToken (fileName @ ''.pdf'') (filepath_Join e sopDir (fileName @ ''.pdf''))
           versionSafe tempFolderID folderID (fst ?old) = (lg @ [(MoveFinal, rq)], out)"
        by simp
      from deploy_upload_move [OF this site resp] show ?thesis .
    qed
  qed
qed


text \<open>
  A 200 answer whose body is \<open>{}\<close> fails the deployment; a 500 answer whose body holds
  \<open>"id"\<close> lets it succeed.
\<close>

theorem DeployPDF_final_move_checks_body_witness:
  \<open>DeployPDF (test_env (test_server ''{"files": []}'' 200 ''{"id":"new-file-id"}'' 200 ''{}''))
      ''token'' ''mydoc'' ''v1'' ''temp'' ''final'' ''old'' ''/tmp/td''
     = ([(Search, search_mydoc), (Upload, upload_mydoc), (SetSharing, sharing_new)] @ [(MoveFinal, move_new)],
        Returns (Some (err_move_body ''{}'')))
   \<and> DeployPDF (test_env (test_server ''{"files": []}'' 200 ''{"id":"new-file-id"}'' 500 ''{"id":"x"}''))
      ''token'' ''mydoc'' ''v1'' ''temp'' ''final'' ''old'' ''/tmp/td''
     = ([(Search, search_mydoc), (Upload, upload_mydoc), (SetSharing, sharing_new)] @ [(MoveFinal, move_new)],
        Returns None)\<close>
proof -
  let ?e1 = \<open>test_env (test_server ''{"files": []}'' 200 ''{"id":"new-file-id"}'' 200 ''{}'')\<close>
  let ?e2 = \<open>test_env (test_server ''{"files": []}'' 200 ''{"id":"new-file-id"}'' 500 ''{"id":"x"}'')\<close>
  let ?lg = "[(Search, search_mydoc), (Upload, upload_mydoc), (SetSharing, sharing_new)]"
  obtain o1 where run1: "DeployPDF ?e1 ''token'' ''mydoc'' ''v1'' ''temp'' ''final'' ''old'' ''/tmp/td''
                           = (?lg @ [(MoveFinal, move_new)], o1)"
    by (simp add: run_no_existing)
  obtain o2 where run2: "DeployPDF ?e2 ''token'' ''mydoc'' ''v1'' ''temp'' ''final'' ''old'' ''/tmp/td''
                           = (?lg @ [(MoveFinal, move_new)], o2)"
    by (simp add: run_no_existing)
  have d1: "http_Do ?e1 ?lg move_new = Inr \<lparr>StatusCode = 200, Body = ''{}''\<rparr>"
    by (simp add: test_env_def test_server_def http_Do_def move_new_def)
  have d2: \<open>http_Do ?e2 ?lg move_new = Inr \<lparr>StatusCode = 500, Body = ''{"id":"x"}''\<rparr>\<close>
    by (simp add: test_env_def test_server_def http_Do_def move_new_def)
  have "o1 = Returns (Some (err_move_body ''{}''))"
    using DeployPDF_final_move_checks_body [OF run1 d1] by simp
  moreover have "o2 = Returns None"
    using DeployPDF_final_move_checks_body [OF run2 d2] by simp
  ultimately show ?thesis using run1 run2 by simp
qed

subsection \<open>C9: UploadFileToDrive rejects bad arguments before any request\<close>

text \<open>
  C9. When the access token, the folder id or the file path is empty, or the file path
  names a directory, \<open>UploadFileToDrive\<close> returns the empty id with an error, and its
  log of calls is empty: no request was sent.
\<close>

theorem UploadFileToDrive_rejects_before_network:
  assumes "accessToken = [] \<or> folderID = [] \<or> filePath = []
           \<or> (\<exists>finfo. os_Stat e filePath = Inr finfo \<and> IsDir finfo)"
  shows "fst (UploadFileToDrive e accessToken folderID filePath) = []
         \<and> fst (snd (UploadFileToDrive e accessToken folderID filePath)) = []
         \<and> snd (snd (UploadFileToDrive e accessToken folderID filePath)) \<noteq> None"
  using assms
  by (auto simp: UploadFileToDrive_def)

theorem UploadFileToDrive_rejects_before_network_witness:
  "os_Stat (test_env (\<lambda>hist rq. Inl (LibError ''unreachable''))) ''/tmp/td'' = Inr \<lparr>IsDir = True\<rparr>
   \<and> UploadFileToDrive (test_env (\<lambda>hist rq. Inl (LibError ''unreachable''))) ''tok'' ''f'' ''/tmp/td''
        = ([], [], Some err_is_directory)
   \<and> UploadFileToDrive (test_env (\<lambda>hist rq. Inl (LibError ''unreachable''))) [] ''f'' ''/tmp/td/mydoc.pdf''
        = ([], [], Some err_accessToken_required)"
proof -
  let ?e = "test_env (\<lambda>hist rq. Inl (LibError ''unreachable''))"
  have st: "os_Stat ?e ''/tmp/td'' = Inr \<lparr>IsDir = True\<rparr>"
    by (simp add: test_env_def)
  then have h1: "''tok'' = [] \<or> ''f'' = [] \<or> ''/tmp/td'' = []
                 \<or> (\<exists>finfo. os_Stat ?e ''/tmp/td'' = Inr finfo \<and> IsDir finfo)"
    by simp
  have h2: "([]::string) = [] \<or> ''f'' = [] \<or> ''/tmp/td/mydoc.pdf'' = []
            \<or> (\<exists>finfo. os_Stat ?e ''/tmp/td/mydoc.pdf'' = Inr finfo \<and> IsDir finfo)"
    by simp
  have "fst (UploadFileToDrive ?e ''tok'' ''f'' ''/tmp/td'') = []"
    using UploadFileToDrive_rejects_before_network [OF h1] by simp
  moreover have "snd (UploadFileToDrive ?e ''tok'' ''f'' ''/tmp/td'') = ([], Some err_is_directory)"
    by (simp add: UploadFileToDrive_def test_env_def)
  moreover have "fst (UploadFileToDrive ?e [] ''f'' ''/tmp/td/mydoc.pdf'') = []"
    using UploadFileToDrive_rejects_before_network [OF h2] by simp
  moreover have "snd (UploadFileToDrive ?e [] ''f'' ''/tmp/td/mydoc.pdf'') = ([], Some err_accessToken_required)"
    by (simp add: UploadFileToDrive_def)
  ultimately show ?thesis using st by (simp add: prod_eq_iff)
qed

subsection \<open>C2: the requests of a deployment with no existing file\<close>

text \<open>
  C2, as the code has it. In every run of \<open>DeployPDF\<close> that returns \<open>nil\<close> and whose
  search decoded to an empty list of files, the calls are exactly four, in this order:
  the search (GET), the upload (POST), the sharing restrictions (PATCH) and the move to
  the final folder (PATCH).
\<close>

theorem DeployPDF_no_existing_sequence:
  assumes run: "DeployPDF e accessToken fileName versionSafe tempFolderID folderID oldFolderID sopDir = (lg, Returns None)"
    and mem: "(Search, rq) \<in> set lg"
    and d: "http_Do e [] rq = Inr resp"
    and u: "unmarshal_files e (Body resp) = Inr []"
  shows "map fst lg = [Search, Upload, SetSharing, MoveFinal]
         \<and> map (Method \<circ> snd) lg = [''GET'', ''POST'', ''PATCH'', ''PATCH'']"
proof -
  from run mem have "fst (DeployPDF e accessToken fileName versionSafe tempFolderID folderID oldFolderID sopDir) \<noteq> []"
    by auto
  from DeployPDF_reached [OF this] obtain info req0 where front:
    "fileName \<noteq> []" "accessToken \<noteq> []" "tempFolderID \<noteq> []" "folderID \<noteq> []" "versionSafe \<noteq> []"
    "os_Stat e (filepath_Join e sopDir (fileName @ ''.pdf'')) = Inr info"
    "http_NewRequest e ''GET'' (queryURL folderID (url_QueryEscape e (fileName @ ''.pdf''))) NoBody = Inr req0"
    by blast
  from mem run have rq: "rq = set_Authorization accessToken req0"
    using DeployPDF_search_mem [OF front, of rq oldFolderID] by simp
  have get: "Method rq = ''GET''"
    using NewRequest_Inr [OF front(7)] rq by simp
  from DeployPDF_decoded [OF front d [unfolded rq] u, of oldFolderID] run
  have "deploy_upload e accessToken (fileName @ ''.pdf'') (filepath_Join e sopDir (fileName @ ''.pdf''))
          versionSafe tempFolderID folderID [(Search, rq)] = (lg, Returns None)"
    by (simp add: existingFileID_of_def old_version_none rq)
  from deploy_upload_nil [OF this] get show ?thesis by auto
qed


theorem DeployPDF_no_existing_sequence_witness:
  \<open>DeployPDF (test_env (test_server ''{"files": []}'' 200 ''{"id":"new-file-id"}'' 200 ''{"id":"new-file-id","parents":["final"]}''))
      ''token'' ''mydoc'' ''v1'' ''temp'' ''final'' ''old'' ''/tmp/td''
     = ([(Search, search_mydoc), (Upload, upload_mydoc), (SetSharing, sharing_new), (MoveFinal, move_new)], Returns None)
   \<and> map fst [(Search, search_mydoc), (Upload, upload_mydoc), (SetSharing, sharing_new), (MoveFinal, move_new)]
       = [Search, Upload, SetSharing, MoveFinal]
   \<and> map (Method \<circ> snd) [(Search, search_mydoc), (Upload, upload_mydoc), (SetSharing, sharing_new), (MoveFinal, move_new)]
       = [''GET'', ''POST'', ''PATCH'', ''PATCH'']\<close>
proof -
  let ?e = \<open>test_env (test_server ''{"files": []}'' 200 ''{"id":"new-file-id"}'' 200 ''{"id":"new-file-id","parents":["final"]}'')\<close>
  let ?lg = "[(Search, search_mydoc), (Upload, upload_mydoc), (SetSharing, sharing_new), (MoveFinal, move_new)]"
  have run: "DeployPDF ?e ''token'' ''mydoc'' ''v1'' ''temp'' ''final'' ''old'' ''/tmp/td'' = (?lg, Returns None)"
    by (simp add: run_no_existing)
  have mem: "(Search, search_mydoc) \<in> set ?lg" by simp
  have u: \<open>unmarshal_files ?e (Body \<lparr>StatusCode = 200, Body = ''{"files": []}''\<rparr>) = Inr []\<close>
    by (simp add: test_env_def test_unmarshal_files_def)
  from DeployPDF_no_existing_sequence [OF run mem search_answer u] run show ?thesis by simp
qed

text \<open>
  The claim's three requests fail on this run: it returns \<open>nil\<close>, its search found no
  file, and it made four calls.
\<close>

theorem DeployPDF_three_requests_counterexample:
  \<open>snd (DeployPDF (test_env (test_server ''{"files": []}'' 200 ''{"id":"new-file-id"}'' 200 ''{"id":"new-file-id","parents":["final"]}''))
          ''token'' ''mydoc'' ''v1'' ''temp'' ''final'' ''old'' ''/tmp/td'') = Returns None
   \<and> unmarshal_files (test_env (test_server ''{"files": []}'' 200 ''{"id":"new-file-id"}'' 200 ''{"id":"new-file-id","parents":["final"]}''))
        ''{"files": []}'' = Inr []
   \<and> map (Method \<circ> snd)
        (fst (DeployPDF (test_env (test_server ''{"files": []}'' 200 ''{"id":"new-file-id"}'' 200 ''{"id":"new-file-id","parents":["final"]}''))
               ''token'' ''mydoc'' ''v1'' ''temp'' ''final'' ''old'' ''/tmp/td''))
       = [''GET'', ''POST'', ''PATCH'', ''PATCH'']
   \<and> map (Method \<circ> snd)
        (fst (DeployPDF (test_env (test_server ''{"files": []}'' 200 ''{"id":"new-file-id"}'' 200 ''{"id":"new-file-id","parents":["final"]}''))
               ''token'' ''mydoc'' ''v1'' ''temp'' ''final'' ''old'' ''/tmp/td''))
       \<noteq> [''GET'', ''POST'', ''PATCH'']\<close>
proof -
  let ?e = \<open>test_env (test_server ''{"files": []}'' 200 ''{"id":"new-file-id"}'' 200 ''{"id":"new-file-id","parents":["final"]}'')\<close>
  have u: \<open>unmarshal_files ?e ''{"files": []}'' = Inr []\<close>
    by (simp add: test_env_def test_unmarshal_files_def)
  have m: "map (Method \<circ> snd) [(Search, search_mydoc), (Upload, upload_mydoc), (SetSharing, sharing_new), (MoveFinal, move_new)]
             = [''GET'', ''POST'', ''PATCH'', ''PATCH'']"
    by (simp add: search_mydoc_def upload_mydoc_def sharing_new_def move_new_def)
  show ?thesis
    using u m by (simp add: run_no_existing)
qed

subsection \<open>C8: the name sent by the rename\<close>




subsection \<open>C3: the errors of an upload\<close>

text \<open>
  C3, as the code has it. \<open>UploadFileToDrive\<close>: whenever the upload call was answered
  with a status below 200 or from 300 on, the function returns the empty id and the error
  \<open>upload failed: status %d: %s\<close> carrying the status code and the body. The upload
  inside \<open>DeployPDF\<close> does not read the status: whenever its upload call was answered,
  the function stops there with the error \<open>upload failed: %s\<close>, which carries the body
  and no status code, exactly when the body does not decode or decodes to an empty id.
\<close>

theorem upload_status_errors:
  \<open>(\<forall>rq resp.
       fst (UploadFileToDrive e accessToken folderID filePath) = [(Upload, rq)]
       \<and> http_Do e [] rq = Inr resp
       \<and> (StatusCode resp < 200 \<or> 300 \<le> StatusCode resp)
       \<longrightarrow> snd (UploadFileToDrive e accessToken folderID filePath)
             = ([], Some (Errorf ''upload failed: status %d: %s'' [ArgD (StatusCode resp), ArgS (Body resp)])))
   \<and> (\<forall>lg rq rest out resp.
       DeployPDF e accessToken' fileName versionSafe tempFolderID folderID' oldFolderID sopDir
         = (lg @ (Upload, rq) # rest, out)
       \<and> http_Do e lg rq = Inr resp
       \<longrightarrow> ((rest = [] \<and> out = Returns (Some (Errorf ''upload failed: %s'' [ArgS (Body resp)])))
             \<longleftrightarrow> (case unmarshal_id e (Body resp) of Inl err \<Rightarrow> True | Inr newFileID \<Rightarrow> newFileID = [])))\<close>
proof (intro conjI allI impI)
  fix rq resp
  assume "fst (UploadFileToDrive e accessToken folderID filePath) = [(Upload, rq)]
       \<and> http_Do e [] rq = Inr resp
       \<and> (StatusCode resp < 200 \<or> 300 \<le> StatusCode resp)"
  then show "snd (UploadFileToDrive e accessToken folderID filePath)
             = ([], Some (Errorf ''upload failed: status %d: %s'' [ArgD (StatusCode resp), ArgS (Body resp)]))"
    by (auto simp: UploadFileToDrive_def Let_def sent_def err_upload_status_def
             split: if_splits sum.splits option.splits)
next
  fix lg rq rest out resp
  assume "DeployPDF e accessToken' fileName versionSafe tempFolderID folderID' oldFolderID sopDir
            = (lg @ (Upload, rq) # rest, out)
          \<and> http_Do e lg rq = Inr resp"
  then show "(rest = [] \<and> out = Returns (Some (Errorf ''upload failed: %s'' [ArgS (Body resp)])))
             \<longleftrightarrow> (case unmarshal_id e (Body resp) of Inl err \<Rightarrow> True | Inr newFileID \<Rightarrow> newFileID = [])"
    using DeployPDF_upload_at [of e accessToken' fileName versionSafe tempFolderID folderID' oldFolderID sopDir lg rq rest out resp]
    by (simp add: err_upload_body_def)
qed


theorem upload_status_errors_witness:
  \<open>snd (UploadFileToDrive (test_env (test_server ''{"files": []}'' 500 ''{"id":"new-file-id"}'' 200 []))
          ''token'' ''temp'' ''/tmp/td/mydoc.pdf'')
     = ([], Some (Errorf ''upload failed: status %d: %s'' [ArgD 500, ArgS ''{"id":"new-file-id"}'']))
   \<and> DeployPDF (test_env (test_server ''{"files": []}'' 500 ''{"error":"boom"}'' 200 []))
        ''token'' ''mydoc'' ''v1'' ''temp'' ''final'' ''old'' ''/tmp/td''
     = ([(Search, search_mydoc)] @ (Upload, upload_mydoc) # [],
        Returns (Some (Errorf ''upload failed: %s'' [ArgS ''{"error":"boom"}''])))\<close>
proof -
  let ?e1 = \<open>test_env (test_server ''{"files": []}'' 500 ''{"id":"new-file-id"}'' 200 [])\<close>
  let ?e2 = \<open>test_env (test_server ''{"files": []}'' 500 ''{"error":"boom"}'' 200 [])\<close>
  have l1: "fst (UploadFileToDrive ?e1 ''token'' ''temp'' ''/tmp/td/mydoc.pdf'') = [(Upload, upload_file_req)]"
    by (simp add: run_upload)
  have d1: \<open>http_Do ?e1 [] upload_file_req = Inr \<lparr>StatusCode = 500, Body = ''{"id":"new-file-id"}''\<rparr>\<close>
    by (rule upload_answer)
  have r1: \<open>snd (UploadFileToDrive ?e1 ''token'' ''temp'' ''/tmp/td/mydoc.pdf'')
              = ([], Some (Errorf ''upload failed: status %d: %s'' [ArgD 500, ArgS ''{"id":"new-file-id"}'']))\<close>
    using upload_status_errors [where e = ?e1 and accessToken = "''token''" and folderID = "''temp''"
                                  and filePath = "''/tmp/td/mydoc.pdf''", THEN conjunct1] l1 d1
    by fastforce
  obtain o2 where run2: "DeployPDF ?e2 ''token'' ''mydoc'' ''v1'' ''temp'' ''final'' ''old'' ''/tmp/td''
                           = ([(Search, search_mydoc)] @ (Upload, upload_mydoc) # [], o2)"
    by (simp add: run_upload_rejected)
  have d2: \<open>http_Do ?e2 [(Search, search_mydoc)] upload_mydoc = Inr \<lparr>StatusCode = 500, Body = ''{"error":"boom"}''\<rparr>\<close>
    by (rule upload_answer_deploy)
  have u2: \<open>unmarshal_id ?e2 ''{"error":"boom"}'' = Inr []\<close>
    by (simp add: test_env_def test_unmarshal_id_def)
  have "o2 = Returns (Some (Errorf ''upload failed: %s'' [ArgS ''{\"error\":\"boom\"}'']))"
    using upload_status_errors [where e = ?e2 and accessToken' = "''token''" and fileName = "''mydoc''"
                                  and versionSafe = "''v1''" and tempFolderID = "''temp''" and folderID' = "''final''"
                                  and oldFolderID = "''old''" and sopDir = "''/tmp/td''", THEN conjunct2]
          run2 d2 u2
    by fastforce
  with run2 r1 show ?thesis by simp
qed

text \<open>
  The claim fails at status 299, which lies outside \<open>[200, 299)\<close>: \<open>UploadFileToDrive\<close>
  returns the id and no error. It fails too in \<open>DeployPDF\<close>, where an upload answered
  with status 500 and a body that holds an id is followed by a successful deployment.
\<close>

theorem upload_status_errors_counterexample:
  \<open>fst (UploadFileToDrive (test_env (test_server ''{"files": []}'' 299 ''{"id":"new-file-id"}'' 200 []))
          ''token'' ''temp'' ''/tmp/td/mydoc.pdf'') = [(Upload, upload_file_req)]
   \<and> http_Do (test_env (test_server ''{"files": []}'' 299 ''{"id":"new-file-id"}'' 200 [])) [] upload_file_req
       = Inr \<lparr>StatusCode = 299, Body = ''{"id":"new-file-id"}''\<rparr>
   \<and> snd (UploadFileToDrive (test_env (test_server ''{"files": []}'' 299 ''{"id":"new-file-id"}'' 200 []))
          ''token'' ''temp'' ''/tmp/td/mydoc.pdf'') = (''new-file-id'', None)
   \<and> http_Do (test_env (test_server ''{"files": []}'' 500 ''{"id":"new-file-id"}'' 200 ''{"id":"new-file-id"}''))
        [(Search, search_mydoc)] upload_mydoc
       = Inr \<lparr>StatusCode = 500, Body = ''{"id":"new-file-id"}''\<rparr>
   \<and> DeployPDF (test_env (test_server ''{"files": []}'' 500 ''{"id":"new-file-id"}'' 200 ''{"id":"new-file-id"}''))
        ''token'' ''mydoc'' ''v1'' ''temp'' ''final'' ''old'' ''/tmp/td''
       = ([(Search, search_mydoc), (Upload, upload_mydoc), (SetSharing, sharing_new), (MoveFinal, move_new)],
          Returns None)\<close>
  by (simp add: run_upload run_no_existing upload_answer upload_answer_deploy)

subsection \<open>C4: the content type of the upload\<close>

text \<open>
  C4. In a run of \<open>DeployPDF\<close> the upload request carries the content type
  \<open>multipart/form-data; boundary=...\<close>, the value of \<open>FormDataContentType\<close>, and not
  \<open>multipart/related; boundary=...\<close>; the upload request of \<open>UploadFileToDrive\<close> in the
  same environment carries \<open>multipart/related\<close> with the writer's boundary.
\<close>

theorem DeployPDF_upload_content_type:
  \<open>fst (DeployPDF (test_env (test_server ''{"files": []}'' 200 ''{"id":"new-file-id"}'' 200 ''{"id":"new-file-id","parents":["final"]}''))
          ''token'' ''mydoc'' ''v1'' ''temp'' ''final'' ''old'' ''/tmp/td'') ! 1 = (Upload, upload_mydoc)
   \<and> boundary (test_env (test_server ''{"files": []}'' 200 ''{"id":"new-file-id"}'' 200 ''{"id":"new-file-id","parents":["final"]}''))
       = ''0123456789abcdef''
   \<and> Header_Get upload_mydoc ''Content-Type'' = ''multipart/form-data; boundary=0123456789abcdef''
   \<and> fst (UploadFileToDrive (test_env (test_server ''{"files": []}'' 200 ''{"id":"new-file-id"}'' 200 ''{"id":"new-file-id","parents":["final"]}''))
          ''token'' ''temp'' ''/tmp/td/mydoc.pdf'') = [(Upload, upload_file_req)]
   \<and> Header_Get upload_file_req ''Content-Type'' = ''multipart/related; boundary=0123456789abcdef''\<close>
proof -
  have b: \<open>boundary (test_env (test_server ''{"files": []}'' 200 ''{"id":"new-file-id"}'' 200 ''{"id":"new-file-id","parents":["final"]}''))
            = ''0123456789abcdef''\<close>
    by (simp add: test_env_def)
  have h1: "Header_Get upload_mydoc ''Content-Type'' = ''multipart/form-data; boundary=0123456789abcdef''"
    by (simp add: Header_Get_def upload_mydoc_def)
  have h2: "Header_Get upload_file_req ''Content-Type'' = ''multipart/related; boundary=0123456789abcdef''"
    by (simp add: Header_Get_def upload_file_req_def)
  show ?thesis
    using b h1 h2 by (simp add: run_no_existing run_upload)
qed

subsection \<open>C5: the skip of DeployPDF and CheckRemoteVersionExists\<close>

text \<open>
  C5, as the code has it. Let \<open>CheckRemoteVersionExists\<close> and \<open>DeployPDF\<close> both reach
  their search, which is the same request, and let its answer decode to \<open>files\<close>. Then
  \<open>DeployPDF\<close> returns \<open>nil\<close> with the search as its only call (already deployed)
  exactly when \<open>CheckRemoteVersionExists\<close> returns \<open>(true, nil)\<close> and the id of the
  first file is not empty. \<open>DeployPDF\<close> takes a file with an empty id for no file.
\<close>

theorem DeployPDF_skip_iff_check:
  assumes chk: "fst (CheckRemoteVersionExists e accessToken fileName folderID versionSafe) = [(Search, rq)]"
    and dep: "fst (DeployPDF e accessToken fileName versionSafe tempFolderID folderID oldFolderID sopDir) \<noteq> []"
    and d: "http_Do e [] rq = Inr resp"
    and u: "unmarshal_files e (Body resp) = Inr files"
  shows "DeployPDF e accessToken fileName versionSafe tempFolderID folderID oldFolderID sopDir
           = ([(Search, rq)], Returns None)
         \<longleftrightarrow> (snd (CheckRemoteVersionExists e accessToken fileName folderID versionSafe) = (True, None)
              \<and> ID (hd files) \<noteq> [])"
proof -
  from CheckRemote_reached [OF chk] obtain req0 where
    nr: "http_NewRequest e ''GET'' (queryURL folderID (url_QueryEscape e (fileName @ ''.pdf''))) NoBody = Inr req0"
    and rq: "rq = set_Authorization accessToken req0"
    and ne: "accessToken \<noteq> []" "fileName \<noteq> []" "folderID \<noteq> []" "versionSafe \<noteq> []"
    by blast
  from DeployPDF_reached [OF dep] nr obtain info where front:
    "fileName \<noteq> []" "accessToken \<noteq> []" "tempFolderID \<noteq> []" "folderID \<noteq> []" "versionSafe \<noteq> []"
    "os_Stat e (filepath_Join e sopDir (fileName @ ''.pdf'')) = Inr info"
    "http_NewRequest e ''GET'' (queryURL folderID (url_QueryEscape e (fileName @ ''.pdf''))) NoBody = Inr req0"
    by auto
  have res: "snd (CheckRemoteVersionExists e accessToken fileName folderID versionSafe)
               = (files \<noteq> [] \<and> Description (hd files) = versionSafe, None)"
    using ne nr d u rq by (cases files) (simp_all add: CheckRemoteVersionExists_def Let_def sent_def)
  let ?skip = "existingFileID_of files \<noteq> [] \<and> existingFileDesc_of files = versionSafe"
  have skip: "?skip \<longleftrightarrow> (files \<noteq> [] \<and> Description (hd files) = versionSafe \<and> ID (hd files) \<noteq> [])"
    by (cases files) (auto simp: existingFileID_of_def existingFileDesc_of_def)
  note eq = DeployPDF_decoded [OF front d [unfolded rq] u, of oldFolderID]
  let ?lg0 = "[(Search, set_Authorization accessToken req0)]"
  let ?old = "deploy_old_version e accessToken fileName folderID oldFolderID
                (existingFileID_of files) (existingFileDesc_of files) ?lg0"
  have "DeployPDF e accessToken fileName versionSafe tempFolderID folderID oldFolderID sopDir
          = ([(Search, rq)], Returns None) \<longleftrightarrow> ?skip"
  proof (cases ?skip)
    case True
    with eq rq show ?thesis by simp
  next
    case nskip: False
    have "DeployPDF e accessToken fileName versionSafe tempFolderID folderID oldFolderID sopDir
            \<noteq> ([(Search, rq)], Returns None)"
    proof (cases "snd ?old")
      case (Some o')
      with old_version_not_nil [of e accessToken fileName folderID oldFolderID
             "existingFileID_of files" "existingFileDesc_of files" ?lg0]
      have "o' \<noteq> Returns None" by simp
      with eq nskip Some show ?thesis by simp
    next
      case None
      show ?thesis
      proof
        assume "DeployPDF e accessToken fileName versionSafe tempFolderID folderID oldFolderID sopDir
                  = ([(Search, rq)], Returns None)"
        with eq nskip None have
          "deploy_upload e accessToken (fileName @ ''.pdf'') (filepath_Join e sopDir (fileName @ ''.pdf''))
             versionSafe tempFolderID folderID (fst ?old) = ([(Search, rq)], Returns None)"
          by simp
        from deploy_upload_nil [OF this] have "3 \<le> length [(Search, rq)]" by auto
        then show False by simp
      qed
    qed
    with nskip show ?thesis by simp
  qed
  with skip res show ?thesis by auto
qed

theorem DeployPDF_skip_iff_check_witness:
  \<open>fst (CheckRemoteVersionExists
          (test_env (test_server ''{"files":[{"id":"oldid","name":"mydoc.pdf","description":"oldver"}]}'' 200 [] 200 []))
          ''token'' ''mydoc'' ''final'' ''oldver'') = [(Search, search_mydoc)]
   \<and> DeployPDF (test_env (test_server ''{"files":[{"id":"oldid","name":"mydoc.pdf","description":"oldver"}]}'' 200 [] 200 []))
        ''token'' ''mydoc'' ''oldver'' ''temp'' ''final'' ''old'' ''/tmp/td''
       = ([(Search, search_mydoc)], Returns None)
   \<and> snd (CheckRemoteVersionExists
          (test_env (test_server ''{"files":[{"id":"oldid","name":"mydoc.pdf","description":"oldver"}]}'' 200 [] 200 []))
          ''token'' ''mydoc'' ''final'' ''oldver'') = (True, None)\<close>
proof -
  let ?sb = \<open>''{"files":[{"id":"oldid","name":"mydoc.pdf","description":"oldver"}]}''\<close>
  let ?e = "test_env (test_server ?sb 200 [] 200 [])"
  let ?files = "[\<lparr>ID = ''oldid'', Name = ''mydoc.pdf'', Description = ''oldver''\<rparr>]"
  have chk: "fst (CheckRemoteVersionExists ?e ''token'' ''mydoc'' ''final'' ''oldver'') = [(Search, search_mydoc)]"
    by (simp add: CheckRemoteVersionExists_def test_defs search_mydoc_def)
  have run: "DeployPDF ?e ''token'' ''mydoc'' ''oldver'' ''temp'' ''final'' ''old'' ''/tmp/td''
               = ([(Search, search_mydoc)], Returns None)"
    by (rule run_skip)
  then have dep: "fst (DeployPDF ?e ''token'' ''mydoc'' ''oldver'' ''temp'' ''final'' ''old'' ''/tmp/td'') \<noteq> []"
    by simp
  have u: "unmarshal_files ?e (Body \<lparr>StatusCode = 200, Body = ?sb\<rparr>) = Inr ?files"
    by (simp add: test_env_def test_unmarshal_files_def)
  from DeployPDF_skip_iff_check [OF chk dep search_answer u] run
  have "snd (CheckRemoteVersionExists ?e ''token'' ''mydoc'' ''final'' ''oldver'') = (True, None)"
    by simp
  with chk run show ?thesis by blast
qed


text \<open>
  The claim fails when the first file has an empty id and the matching description:
  \<open>CheckRemoteVersionExists\<close> returns true, \<open>DeployPDF\<close> uploads and moves a new file.
\<close>

theorem DeployPDF_skip_iff_check_counterexample:
  \<open>fst (CheckRemoteVersionExists
          (test_env (test_server ''{"files":[{"id":"","name":"mydoc.pdf","description":"v1"}]}''
                       200 ''{"id":"new-file-id"}'' 200 ''{"id":"new-file-id","parents":["final"]}''))
          ''token'' ''mydoc'' ''final'' ''v1'') = [(Search, search_mydoc)]
   \<and> snd (CheckRemoteVersionExists
          (test_env (test_server ''{"files":[{"id":"","name":"mydoc.pdf","description":"v1"}]}''
                       200 ''{"id":"new-file-id"}'' 200 ''{"id":"new-file-id","parents":["final"]}''))
          ''token'' ''mydoc'' ''final'' ''v1'') = (True, None)
   \<and> DeployPDF (test_env (test_server ''{"files":[{"id":"","name":"mydoc.pdf","description":"v1"}]}''
                       200 ''{"id":"new-file-id"}'' 200 ''{"id":"new-file-id","parents":["final"]}''))
        ''token'' ''mydoc'' ''v1'' ''temp'' ''final'' ''old'' ''/tmp/td''
       = ([(Search, search_mydoc), (Upload, upload_mydoc), (SetSharing, sharing_new), (MoveFinal, move_new)],
          Returns None)\<close>
proof -
  let ?e = \<open>test_env (test_server ''{"files":[{"id":"","name":"mydoc.pdf","description":"v1"}]}''
                       200 ''{"id":"new-file-id"}'' 200 ''{"id":"new-file-id","parents":["final"]}'')\<close>
  have "CheckRemoteVersionExists ?e ''token'' ''mydoc'' ''final'' ''v1'' = ([(Search, search_mydoc)], True, None)"
    by (simp add: CheckRemoteVersionExists_def test_defs search_mydoc_def)
  then show ?thesis by (simp add: run_empty_id)
qed


subsection \<open>C10: the archive branch does not read the status\<close>





end
